theory Spec2Isabelle
  imports Complex_Main
begin

section \<open>The Hyundai/Kia car interface (selfdrive/car/hyundai/interface.py)\<close>

text \<open>
  A shallow embedding of \<^verbatim>\<open>CarInterface.get_params\<close> and \<^verbatim>\<open>CarInterface.update\<close>.
  Python floats are written as \<open>real\<close>: the properties below depend on which branch
  assigns a field and on comparisons, never on rounding. Python ints are \<open>int\<close>.
  Objects the interface only reads (the parameter store, the fingerprint, the car-state
  and car-controller objects, the constants of \<^verbatim>\<open>values.py\<close> and \<^verbatim>\<open>selfdrive.car\<close>)
  are arguments of the functions.
\<close>

subsection \<open>Errors\<close>

text \<open>
  The exceptions the two functions can raise, and the two configuration errors the
  specification names. \<open>Overflow\<close> is \<^verbatim>\<open>decimal.Overflow\<close>; \<open>ZeroDivisionError\<close> and
  \<open>OverflowError\<close> are the exceptions of float arithmetic. \<open>UnionMemberError\<close> stands for
  the exception pycapnp raises when a member of a union is accessed while another member
  is the active one.
  \<open>UnknownVehicle\<close> and \<open>UnsupportedControlMethod\<close> are here so that statements about them
  can be written.
\<close>

datatype error =
    TypeError
  | ValueError
  | InvalidOperation
  | Overflow
  | ZeroDivisionError
  | OverflowError
  | KeyError
  | AttributeError
  | UnionMemberError
  | UnknownVehicle
  | UnsupportedControlMethod

subsection \<open>The parameter store (common.params.Params)\<close>

text \<open>
  \<^verbatim>\<open>params.get(key, encoding="utf8")\<close> gives the stored text or \<^verbatim>\<open>None\<close>. The
  model keeps what the conversions applied to it yield.

  For \<^verbatim>\<open>int(...)\<close>: \<open>Missing\<close> when the key is absent (\<^verbatim>\<open>int(None)\<close> raises TypeError),
  \<open>Malformed\<close> when the text is not an integer literal (ValueError), \<open>Stored v\<close> otherwise.

  For \<^verbatim>\<open>float(Decimal(...) * Decimal(scale))\<close>, with the scale the key is read with:
  \<open>Absent\<close> when the key is absent (\<^verbatim>\<open>Decimal(None)\<close> raises TypeError); \<open>Unparsable\<close> when
  the text is not a decimal literal or is a signalling NaN (\<^verbatim>\<open>decimal.InvalidOperation\<close>);
  \<open>Overflowing\<close> when the text is a decimal whose product with the scale exceeds the
  exponent range of the decimal context (\<^verbatim>\<open>decimal.Overflow\<close>); \<open>Finite v\<close> when the text
  is the decimal \<open>v\<close> and the product is a finite float. A text whose product is an
  infinite float or a NaN has no counterpart here, since the numbers of the model are
  reals: such stores are outside the model. \<^verbatim>\<open>get_bool\<close> never raises.
\<close>

datatype 'a stored = Missing | Malformed | Stored 'a

datatype decimal_text = Absent | Unparsable | Overflowing | Finite real

record Params =
  get_decimal :: "string \<Rightarrow> decimal_text"
  get_int :: "string \<Rightarrow> int stored"
  get_bool :: "string \<Rightarrow> bool"

text \<open>\<^verbatim>\<open>float(Decimal(params.get(key, encoding="utf8")) * Decimal(scale))\<close>\<close>

definition read_scaled :: "Params \<Rightarrow> string \<Rightarrow> real \<Rightarrow> error + real" where
  "read_scaled params key scale =
     (case get_decimal params key of
        Absent \<Rightarrow> Inl TypeError
      | Unparsable \<Rightarrow> Inl InvalidOperation
      | Overflowing \<Rightarrow> Inl Overflow
      | Finite v \<Rightarrow> Inr (v * scale))"

text \<open>\<^verbatim>\<open>int(params.get(key, encoding="utf8"))\<close>\<close>

definition read_int :: "Params \<Rightarrow> string \<Rightarrow> error + int" where
  "read_int params key =
     (case get_int params key of
        Missing \<Rightarrow> Inl TypeError
      | Malformed \<Rightarrow> Inl ValueError
      | Stored v \<Rightarrow> Inr v)"

text \<open>Sequencing of steps that may raise: the first exception ends the function.\<close>

definition bind :: "error + 'a \<Rightarrow> ('a \<Rightarrow> error + 'b) \<Rightarrow> error + 'b" where
  "bind m f = (case m of Inl e \<Rightarrow> Inl e | Inr v \<Rightarrow> f v)"

subsection \<open>CarParams\<close>

datatype SafetyModel = silent | hyundai | hyundaiCommunityVisionOnly

datatype SteerControlType = torque | angle

record LateralPIDTuning =
  pid_kpBP :: "real list"
  pid_kpV :: "real list"
  pid_kiBP :: "real list"
  pid_kiV :: "real list"
  pid_kdBP :: "real list"
  pid_kdV :: "real list"
  pid_kf :: real
  pid_newKfTuned :: bool

record LateralINDITuning =
  indi_innerLoopGainBP :: "real list"
  indi_innerLoopGainV :: "real list"
  indi_outerLoopGainBP :: "real list"
  indi_outerLoopGainV :: "real list"
  indi_timeConstantBP :: "real list"
  indi_timeConstantV :: "real list"
  indi_actuatorEffectivenessBP :: "real list"
  indi_actuatorEffectivenessV :: "real list"

record LateralLQRTuning =
  lqr_scale :: real
  lqr_ki :: real
  lqr_dcGain :: real
  lqr_a :: "real list"
  lqr_b :: "real list"
  lqr_c :: "real list"
  lqr_k :: "real list"
  lqr_l :: "real list"

text \<open>\<^verbatim>\<open>ret.lateralTuning\<close> is a union with the members pid, indi and lqr.\<close>

datatype lateralTuning_union =
    Pid LateralPIDTuning
  | Indi LateralINDITuning
  | Lqr LateralLQRTuning

record LongitudinalPIDTuning =
  long_kpBP :: "real list"
  long_kpV :: "real list"
  long_kiBP :: "real list"
  long_kiV :: "real list"
  long_deadzoneBP :: "real list"
  long_deadzoneV :: "real list"
  long_kdBP :: "real list"
  long_kdV :: "real list"
  long_kfBP :: "real list"
  long_kfV :: "real list"

record CarParams =
  carFingerprint :: string
  carName :: string
  safetyModel :: SafetyModel
  communityFeature :: bool
  steerActuatorDelay :: real
  steerRateCost :: real
  steerLimitTimer :: real
  steerRatio :: real
  lateralTuning :: lateralTuning_union
  steerMaxV :: "real list"
  steerMaxBP :: "real list"
  mass :: real
  wheelbase :: real
  radarTimeStep :: real
  centerToFront :: real
  rotationalInertia :: real
  tireStiffnessFront :: real
  tireStiffnessRear :: real
  steerRatioRear :: real
  steerControlType :: SteerControlType
  gasMaxBP :: "real list"
  gasMaxV :: "real list"
  brakeMaxBP :: "real list"
  brakeMaxV :: "real list"
  longitudinalTuning :: LongitudinalPIDTuning
  enableCamera :: bool
  enableBsm :: bool
  stoppingControl :: bool
  startAccel :: real
  vCruisekph :: real
  mdpsBus :: int
  sasBus :: int
  sccBus :: int
  fcaBus :: int
  bsmAvailable :: bool
  lfaAvailable :: bool
  lvrAvailable :: bool
  evgearAvailable :: bool
  emsAvailable :: bool
  minSteerSpeed :: real
  openpilotLongitudinalControl :: bool
  enableCruise :: bool
  radarOffCan :: bool
  standStill :: bool


subsection \<open>What get_params reads from other modules\<close>

text \<open>
  The members of \<^verbatim>\<open>CAR\<close> and \<^verbatim>\<open>Buttons\<close> (selfdrive/car/hyundai/values.py) that the
  interface names. Their values, the constants and scaling helpers of
  \<^verbatim>\<open>selfdrive.car\<close> and \<^verbatim>\<open>selfdrive.config\<close>, and \<^verbatim>\<open>CarInterfaceBase.get_std_params\<close>
  are defined outside this file, so they are fields of one record of externals.

  The two scaling helpers compute with floats and may raise: a call either divides by
  zero, overflows, or returns its value.
\<close>

datatype 'a computed = ZeroDivision | RangeOverflow | Computed 'a

definition raise_or_value :: "'a computed \<Rightarrow> error + 'a" where
  "raise_or_value x =
     (case x of
        ZeroDivision \<Rightarrow> Inl ZeroDivisionError
      | RangeOverflow \<Rightarrow> Inl OverflowError
      | Computed v \<Rightarrow> Inr v)"

datatype CAR =
    GENESIS | GENESIS_G70 | GENESIS_G80 | GENESIS_G90 | SANTA_FE
  | SONATA | SONATA_HEV | SONATA_LF | SONATA_LF_TURBO | SONATA_LF_HEV
  | PALISADE | AVANTE | I30 | KONA | KONA_HEV | KONA_EV | IONIQ_HEV | IONIQ_EV
  | GRANDEUR_IG | GRANDEUR_IG_HEV | GRANDEUR_IG_FL | GRANDEUR_IG_FL_HEV
  | VELOSTER | NEXO | SORENTO | K5 | K5_HEV | STINGER | K3 | CEED | SPORTAGE
  | NIRO_HEV | NIRO_EV | K7 | K7_HEV | SELTOS | SOUL_EV

datatype Buttons = RES_ACCEL | SET_DECEL | GAP_DIST | CANCEL

type_synonym fingerprint = "int \<rightharpoonup> (int \<rightharpoonup> int)"

record externals =
  CAR_value :: "CAR \<Rightarrow> string"
  Buttons_value :: "Buttons \<Rightarrow> int"
  STD_CARGO_KG :: real
  LB_TO_KG :: real
  scale_rot_inertia :: "real \<Rightarrow> real \<Rightarrow> real computed"
  scale_tire_stiffness :: "real \<Rightarrow> real \<Rightarrow> real \<Rightarrow> real \<Rightarrow> (real \<times> real) computed"
  get_std_params :: "string \<Rightarrow> fingerprint \<Rightarrow> CarParams"

text \<open>\<^verbatim>\<open>fingerprint[bus]\<close>: KeyError when the dictionary has no such bus.\<close>

definition bus_ids :: "fingerprint \<Rightarrow> int \<Rightarrow> error + (int \<rightharpoonup> int)" where
  "bus_ids fingerprint bus =
     (case fingerprint bus of None \<Rightarrow> Inl KeyError | Some ids \<Rightarrow> Inr ids)"

text \<open>\<^verbatim>\<open>addr in fingerprint[bus]\<close>: membership among the keys of the dictionary.\<close>

definition py_in :: "int \<Rightarrow> (int \<rightharpoonup> int) \<Rightarrow> bool" where
  "py_in addr ids = (ids addr \<noteq> None)"

subsection \<open>get_params, lines 30 to 54: the tunables read from the store\<close>

record tunables =
  PidKp :: real
  PidKi :: real
  PidKd :: real
  PidKf :: real
  InnerLoopGain :: real
  OuterLoopGain :: real
  TimeConstant :: real
  ActuatorEffectiveness :: real
  Scale :: real
  LqrKi :: real
  DcGain :: real
  SteerMaxV :: real
  tire_stiffness_factor :: real
  SteerActuatorDelayAdj :: real
  SteerRateCostAdj :: real
  SteerLimitTimerAdj :: real
  SteerRatioAdj :: real
  lat_control_method :: int
  shane_feed_forward :: bool

definition read_tunables :: "Params \<Rightarrow> error + tunables" where
  "read_tunables params =
     bind (read_scaled params ''PidKp'' 0.01) (\<lambda>v1.
     bind (read_scaled params ''PidKi'' 0.001) (\<lambda>v2.
     bind (read_scaled params ''PidKd'' 0.01) (\<lambda>v3.
     bind (read_scaled params ''PidKf'' 0.00001) (\<lambda>v4.
     bind (read_scaled params ''InnerLoopGain'' 0.1) (\<lambda>v5.
     bind (read_scaled params ''OuterLoopGain'' 0.1) (\<lambda>v6.
     bind (read_scaled params ''TimeConstant'' 0.1) (\<lambda>v7.
     bind (read_scaled params ''ActuatorEffectiveness'' 0.1) (\<lambda>v8.
     bind (read_scaled params ''Scale'' 1.0) (\<lambda>v9.
     bind (read_scaled params ''LqrKi'' 0.001) (\<lambda>v10.
     bind (read_scaled params ''DcGain'' 0.0001) (\<lambda>v11.
     bind (read_scaled params ''SteerMaxvAdj'' 0.1) (\<lambda>v12.
     bind (read_scaled params ''TireStiffnessFactorAdj'' 0.01) (\<lambda>v13.
     bind (read_scaled params ''SteerActuatorDelayAdj'' 0.01) (\<lambda>v14.
     bind (read_scaled params ''SteerRateCostAdj'' 0.01) (\<lambda>v15.
     bind (read_scaled params ''SteerLimitTimerAdj'' 0.01) (\<lambda>v16.
     bind (read_scaled params ''SteerRatioAdj'' 0.1) (\<lambda>v17.
     bind (read_int params ''LateralControlMethod'') (\<lambda>v18.
     Inr \<lparr>PidKp = v1, PidKi = v2, PidKd = v3, PidKf = v4,
          InnerLoopGain = v5, OuterLoopGain = v6, TimeConstant = v7,
          ActuatorEffectiveness = v8, Scale = v9, LqrKi = v10, DcGain = v11,
          SteerMaxV = v12, tire_stiffness_factor = v13,
          SteerActuatorDelayAdj = v14, SteerRateCostAdj = v15,
          SteerLimitTimerAdj = v16, SteerRatioAdj = v17,
          lat_control_method = v18,
          shane_feed_forward = get_bool params ''ShaneFeedForward''\<rparr>))))))))))))))))))"

subsection \<open>get_params, lines 55 to 103: the lateral tuning\<close>

text \<open>
  An \<^verbatim>\<open>if/elif/elif\<close> with no \<^verbatim>\<open>else\<close>: another method value leaves the union as
  get_std_params built it. The first branch writes through \<^verbatim>\<open>ret.lateralTuning.pid\<close>,
  which pycapnp refuses when another member of the union is the active one; the other
  two branches call \<^verbatim>\<open>init\<close> and then assign every field.
\<close>

definition lateral_tuning :: "tunables \<Rightarrow> CarParams \<Rightarrow> error + CarParams" where
  "lateral_tuning t ret =
     (if lat_control_method t = 0 then
        (case lateralTuning ret of
           Pid p \<Rightarrow> Inr (ret\<lparr>lateralTuning := Pid (p\<lparr>
             pid_kf := PidKf t,
             pid_kpBP := [0, 9],
             pid_kpV := [0.1, PidKp t],
             pid_kiBP := [0, 9],
             pid_kiV := [0.01, PidKi t],
             pid_kdBP := [0],
             pid_kdV := [PidKd t],
             pid_newKfTuned := (if shane_feed_forward t then True else False)\<rparr>)\<rparr>)
         | _ \<Rightarrow> Inl UnionMemberError)
      else if lat_control_method t = 1 then
        Inr (ret\<lparr>lateralTuning := Indi \<lparr>
          indi_innerLoopGainBP = [0, 9],
          indi_innerLoopGainV = [3.0, InnerLoopGain t],
          indi_outerLoopGainBP = [0, 9],
          indi_outerLoopGainV = [1.5, OuterLoopGain t],
          indi_timeConstantBP = [0, 9],
          indi_timeConstantV = [2.0, TimeConstant t],
          indi_actuatorEffectivenessBP = [0, 9],
          indi_actuatorEffectivenessV = [3.0, ActuatorEffectiveness t]\<rparr>\<rparr>)
      else if lat_control_method t = 2 then
        Inr (ret\<lparr>lateralTuning := Lqr \<lparr>
          lqr_scale = Scale t,
          lqr_ki = LqrKi t,
          lqr_dcGain = DcGain t,
          lqr_a = [0, 1, -0.22619643, 1.21822268],
          lqr_b = [-0.000192006585, 0.0000395603032],
          lqr_c = [1, 0],
          lqr_k = [-110, 451],
          lqr_l = [0.33, 0.318]\<rparr>\<rparr>)
      else Inr ret)"

subsection \<open>get_params, lines 108 to 195: mass and wheelbase by candidate\<close>

text \<open>
  The chain of comparisons in the order of the source. It ends without an \<^verbatim>\<open>else\<close>:
  a candidate equal to none of the members leaves \<open>mass\<close> and \<open>wheelbase\<close> as they were.
\<close>

definition vehicle_profile :: "externals \<Rightarrow> string \<Rightarrow> CarParams \<Rightarrow> CarParams" where
  "vehicle_profile ext candidate ret =
     (if candidate = CAR_value ext GENESIS then
        ret\<lparr>mass := 1900 + STD_CARGO_KG ext, wheelbase := 3.01\<rparr>
      else if candidate = CAR_value ext GENESIS_G70 then
        ret\<lparr>mass := 1640 + STD_CARGO_KG ext, wheelbase := 2.84\<rparr>
      else if candidate = CAR_value ext GENESIS_G80 then
        ret\<lparr>mass := 1855 + STD_CARGO_KG ext, wheelbase := 3.01\<rparr>
      else if candidate = CAR_value ext GENESIS_G90 then
        ret\<lparr>mass := 2200, wheelbase := 3.15\<rparr>
      else if candidate = CAR_value ext SANTA_FE then
        ret\<lparr>mass := 1694 + STD_CARGO_KG ext, wheelbase := 2.765\<rparr>
      else if candidate \<in> set [CAR_value ext SONATA, CAR_value ext SONATA_HEV] then
        ret\<lparr>mass := 1513 + STD_CARGO_KG ext, wheelbase := 2.84\<rparr>
      else if candidate = CAR_value ext SONATA_LF then
        ret\<lparr>mass := 4497 * LB_TO_KG ext, wheelbase := 2.804\<rparr>
      else if candidate = CAR_value ext SONATA_LF_TURBO then
        ret\<lparr>mass := 1470 + STD_CARGO_KG ext, wheelbase := 2.805\<rparr>
      else if candidate = CAR_value ext SONATA_LF_HEV then
        ret\<lparr>mass := 1595 + STD_CARGO_KG ext, wheelbase := 2.805\<rparr>
      else if candidate = CAR_value ext PALISADE then
        ret\<lparr>mass := 1999 + STD_CARGO_KG ext, wheelbase := 2.90\<rparr>
      else if candidate = CAR_value ext AVANTE then
        ret\<lparr>mass := 1245 + STD_CARGO_KG ext, wheelbase := 2.72\<rparr>
      else if candidate = CAR_value ext I30 then
        ret\<lparr>mass := 1380 + STD_CARGO_KG ext, wheelbase := 2.65\<rparr>
      else if candidate = CAR_value ext KONA then
        ret\<lparr>mass := 1275 + STD_CARGO_KG ext, wheelbase := 2.7\<rparr>
      else if candidate \<in> set [CAR_value ext KONA_HEV, CAR_value ext KONA_EV] then
        ret\<lparr>mass := 1425 + STD_CARGO_KG ext, wheelbase := 2.6\<rparr>
      else if candidate \<in> set [CAR_value ext IONIQ_HEV, CAR_value ext IONIQ_EV] then
        ret\<lparr>mass := 1490 + STD_CARGO_KG ext, wheelbase := 2.7\<rparr>
      else if candidate \<in> set [CAR_value ext GRANDEUR_IG, CAR_value ext GRANDEUR_IG_HEV] then
        ret\<lparr>mass := 1675 + STD_CARGO_KG ext, wheelbase := 2.845\<rparr>
      else if candidate \<in> set [CAR_value ext GRANDEUR_IG_FL, CAR_value ext GRANDEUR_IG_FL_HEV] then
        ret\<lparr>mass := 1725 + STD_CARGO_KG ext, wheelbase := 2.885\<rparr>
      else if candidate = CAR_value ext VELOSTER then
        ret\<lparr>mass := 3558 * LB_TO_KG ext, wheelbase := 2.80\<rparr>
      else if candidate = CAR_value ext NEXO then
        ret\<lparr>mass := 1885 + STD_CARGO_KG ext, wheelbase := 2.79\<rparr>
      else if candidate = CAR_value ext SORENTO then
        ret\<lparr>mass := 1985 + STD_CARGO_KG ext, wheelbase := 2.78\<rparr>
      else if candidate \<in> set [CAR_value ext K5, CAR_value ext K5_HEV] then
        ret\<lparr>wheelbase := 2.805, mass := 1600 + STD_CARGO_KG ext\<rparr>
      else if candidate = CAR_value ext STINGER then
        ret\<lparr>mass := 1825.0 + STD_CARGO_KG ext, wheelbase := 2.906\<rparr>
      else if candidate = CAR_value ext K3 then
        ret\<lparr>mass := 1260 + STD_CARGO_KG ext, wheelbase := 2.70\<rparr>
      else if candidate = CAR_value ext CEED then
        ret\<lparr>mass := 1350 + STD_CARGO_KG ext, wheelbase := 2.65\<rparr>
      else if candidate = CAR_value ext SPORTAGE then
        ret\<lparr>mass := 1985 + STD_CARGO_KG ext, wheelbase := 2.78\<rparr>
      else if candidate \<in> set [CAR_value ext NIRO_HEV, CAR_value ext NIRO_EV] then
        ret\<lparr>mass := 1737 + STD_CARGO_KG ext, wheelbase := 2.7\<rparr>
      else if candidate \<in> set [CAR_value ext K7, CAR_value ext K7_HEV] then
        ret\<lparr>mass := 1680 + STD_CARGO_KG ext, wheelbase := 2.855\<rparr>
      else if candidate = CAR_value ext SELTOS then
        ret\<lparr>mass := 1310 + STD_CARGO_KG ext, wheelbase := 2.6\<rparr>
      else if candidate = CAR_value ext SOUL_EV then
        ret\<lparr>mass := 1375 + STD_CARGO_KG ext, wheelbase := 2.6\<rparr>
      else ret)"

subsection \<open>get_params, lines 197 to 229: derived constants and longitudinal curves\<close>

text \<open>
  Line 202 calls \<^verbatim>\<open>scale_rot_inertia\<close> and line 206 calls \<^verbatim>\<open>scale_tire_stiffness\<close>, on
  the mass and wheelbase the chain above left; an exception of either ends get_params.
\<close>

definition dynamics :: "externals \<Rightarrow> tunables \<Rightarrow> CarParams \<Rightarrow> error + CarParams" where
  "dynamics ext t ret =
     (let ret = ret\<lparr>radarTimeStep := 0.05\<rparr>;
          ret = ret\<lparr>centerToFront := wheelbase ret * 0.4\<rparr>
      in bind (raise_or_value (scale_rot_inertia ext (mass ret) (wheelbase ret))) (\<lambda>inertia.
         let ret = ret\<lparr>rotationalInertia := inertia\<rparr>
         in bind (raise_or_value (scale_tire_stiffness ext (mass ret) (wheelbase ret)
                                    (centerToFront ret) (tire_stiffness_factor t))) (\<lambda>stiffness.
            let ret = ret\<lparr>tireStiffnessFront := fst stiffness,
                          tireStiffnessRear := snd stiffness\<rparr>;
                ret = ret\<lparr>steerRatioRear := 0, steerControlType := torque\<rparr>;
                ret = ret\<lparr>gasMaxBP := [0, 4, 9, 17, 23, 31],
                          gasMaxV := [1.5, 1.2, 0.7, 0.5, 0.4, 0.3],
                          brakeMaxBP := [0, 8],
                          brakeMaxV := [0.7, 3.0]\<rparr>
            in Inr (ret\<lparr>longitudinalTuning := (longitudinalTuning ret)\<lparr>
                 long_kpBP := [0, 4, 9, 17, 23, 31],
                 long_kpV := [0.35, 0.6, 0.58, 0.34, 0.28, 0.19],
                 long_kiBP := [0, 4, 9, 17, 23, 31],
                 long_kiV := [0.019, 0.021, 0.02, 0.019, 0.017, 0.016],
                 long_deadzoneBP := [0, 9, 17],
                 long_deadzoneV := [0, 0.1, 0.05],
                 long_kdBP := [0, 4, 9, 17, 23, 31],
                 long_kdV := [0.6, 1.1, 1.0, 0.8, 0.6, 0.5],
                 long_kfBP := [0, 4, 9, 17, 23, 31],
                 long_kfV := [1.0, 1.2, 1.5, 1.0, 0.9, 0.8]\<rparr>\<rparr>))))"

subsection \<open>get_params, lines 231 to 248: buses and feature flags from the fingerprint\<close>

text \<open>
  \<open>ids0\<close> and \<open>ids2\<close> are \<^verbatim>\<open>fingerprint[0]\<close> and \<^verbatim>\<open>fingerprint[2]\<close>. The conditions are
  the source's, with Python's precedence: line 242 is
  \<^verbatim>\<open>2 if (1057 in fingerprint[2] and False) else (0 if 1057 in fingerprint[0] else -1)\<close>,
  and line 248 tests \<^verbatim>\<open>608 and (809 in fingerprint[0])\<close>, where the integer 608 counts as
  true because it is not zero. \<^verbatim>\<open>0x58b\<close> is 1419.
\<close>

definition bus_topology ::
  "Params \<Rightarrow> (int \<rightharpoonup> int) \<Rightarrow> (int \<rightharpoonup> int) \<Rightarrow> CarParams \<Rightarrow> CarParams" where
  "bus_topology params ids0 ids2 ret =
     (let ret = ret\<lparr>enableCamera := True, enableBsm := py_in 1419 ids0\<rparr>;
          ret = ret\<lparr>stoppingControl := True, startAccel := 0.2, vCruisekph := 0\<rparr>;
          ret = ret\<lparr>mdpsBus := (if get_bool params ''MdpsHarness'' then 1 else 0)\<rparr>;
          ret = ret\<lparr>sasBus := (if py_in 688 ids0 \<or> \<not> mdpsBus ret = 1 then 0 else 1)\<rparr>;
          ret = ret\<lparr>sccBus := (if py_in 1057 ids2 \<and> False then 2
                               else if py_in 1057 ids0 then 0 else - 1)\<rparr>;
          ret = ret\<lparr>fcaBus := (if py_in 909 ids0 then 0
                               else if py_in 909 ids2 then 2 else - 1)\<rparr>;
          ret = ret\<lparr>bsmAvailable := (if py_in 1419 ids0 then True else False)\<rparr>;
          ret = ret\<lparr>lfaAvailable := (if py_in 1157 ids2 then True else False)\<rparr>;
          ret = ret\<lparr>lvrAvailable := (if py_in 871 ids0 then True else False)\<rparr>;
          ret = ret\<lparr>evgearAvailable := (if py_in 882 ids0 then True else False)\<rparr>
      in ret\<lparr>emsAvailable := (if (608 :: int) \<noteq> 0 \<and> py_in 809 ids0 then True else False)\<rparr>)"

subsection \<open>get_params, lines 252 to 266: the final assignments\<close>

definition final_overrides :: "CarParams \<Rightarrow> CarParams" where
  "final_overrides ret =
     (let ret = (if mdpsBus ret = 1 then ret\<lparr>minSteerSpeed := 0\<rparr> else ret);
          ret = ret\<lparr>centerToFront := wheelbase ret * 0.4\<rparr>;
          ret = ret\<lparr>openpilotLongitudinalControl := True\<rparr>;
          ret = ret\<lparr>safetyModel := hyundaiCommunityVisionOnly\<rparr>;
          ret = ret\<lparr>sccBus := - 1\<rparr>;
          ret = ret\<lparr>enableCruise := False\<rparr>;
          ret = ret\<lparr>radarOffCan := True\<rparr>;
          ret = (if fcaBus ret = 0 then ret\<lparr>fcaBus := - 1\<rparr> else ret)
      in ret\<lparr>standStill := False\<rparr>)"

subsection \<open>get_params\<close>

text \<open>
  The whole function, in the order of the source. The reads of the store come first and
  the first one that raises ends the function; then come the lateral tuning, the two
  scaling helpers (lines 202 and 206), and the fingerprint: \<^verbatim>\<open>fingerprint[0]\<close> is first
  looked up on line 232 and \<^verbatim>\<open>fingerprint[2]\<close> on line 242.
\<close>

definition get_params ::
  "externals \<Rightarrow> Params \<Rightarrow> string \<Rightarrow> fingerprint \<Rightarrow> error + CarParams" where
  "get_params ext params candidate fingerprint =
     (let ret = get_std_params ext candidate fingerprint;
          ret = ret\<lparr>carName := ''hyundai'', safetyModel := hyundai\<rparr>
      in bind (read_tunables params) (\<lambda>t.
         let ret = ret\<lparr>communityFeature := False,
                       steerActuatorDelay := SteerActuatorDelayAdj t,
                       steerRateCost := SteerRateCostAdj t,
                       steerLimitTimer := SteerLimitTimerAdj t,
                       steerRatio := SteerRatioAdj t\<rparr>
         in bind (lateral_tuning t ret) (\<lambda>ret.
            let ret = ret\<lparr>steerMaxV := [SteerMaxV t], steerMaxBP := [0]\<rparr>;
                ret = vehicle_profile ext candidate ret
            in bind (dynamics ext t ret) (\<lambda>ret.
               bind (bus_ids fingerprint 0) (\<lambda>ids0.
               bind (bus_ids fingerprint 2) (\<lambda>ids2.
               Inr (final_overrides (bus_topology params ids0 ids2 ret))))))))"

subsection \<open>The objects update reads and writes\<close>

datatype ButtonType =
  unknown | accelCruise | decelCruise | gapAdjustCruise | cancel | altButton3

record ButtonEvent =
  type :: ButtonType
  pressed :: bool

text \<open>
  The event names update adds; \<open>otherEvent\<close> stands for the remaining members of
  \<^verbatim>\<open>car.CarEvent.EventName\<close>, which only \<^verbatim>\<open>create_common_events\<close> can add.
\<close>

datatype EventName =
    parkBrake | brakeUnavailable | laneChangeManual | emgButtonManual
  | modeChangeOpenpilot | modeChangeDistcurv | modeChangeDistance
  | modeChangeOneway | modeChangeMaponly
  | buttonEnable | pcmEnable | buttonCancel | pcmDisable
  | otherEvent nat

text \<open>The car.CarState message that \<^verbatim>\<open>self.CS.update\<close> builds and update completes.\<close>

record CarState =
  vEgo :: real
  brakePressed :: bool
  standstill :: bool
  cruiseState_modeSel :: int
  canValid :: bool
  steeringRateLimited :: bool
  msg_buttonEvents :: "ButtonEvent list"
  msg_events :: "EventName list"

text \<open>The fields of the car controller \<^verbatim>\<open>self.CC\<close> that update reads.\<close>

record CarController =
  enabled :: bool
  usestockscc :: bool
  steer_rate_limited :: bool
  lanechange_manual_timer :: int
  emergency_manual_timer :: int
  mode_change_timer :: int
  acc_standstill_timer :: int
  setspeed :: real
  clu11_speed :: real

text \<open>
  What one call of update gets from outside: the validity flags of the three parsers,
  the message returned by \<^verbatim>\<open>self.CS.update\<close>, the fields of \<^verbatim>\<open>self.CS\<close> after that
  call, the events returned by \<^verbatim>\<open>create_common_events\<close>, and \<^verbatim>\<open>self.CC\<close>, which is
  \<^verbatim>\<open>None\<close> when the interface was built without a controller.
\<close>

record cycle =
  cp_can_valid :: bool
  cp2_can_valid :: bool
  cp_cam_can_valid :: bool
  CS_update :: CarState
  CS_parkBrake :: bool
  CS_brakeUnavailable :: bool
  CS_cruise_buttons :: int
  CS_prev_cruise_buttons :: int
  CS_cruise_main_button :: int
  CS_prev_cruise_main_button :: int
  create_common_events :: "EventName list"
  CC :: "CarController option"

text \<open>The fields of the interface object that update reads and writes.\<close>

record CarInterface =
  CP :: CarParams
  CS_out :: CarState
  buttonEvents :: "ButtonEvent list"
  low_speed_alert :: bool

subsection \<open>update, lines 319 to 329: the type of a cruise-button event\<close>

definition button_type :: "externals \<Rightarrow> int \<Rightarrow> ButtonType" where
  "button_type ext but =
     (if but = Buttons_value ext RES_ACCEL then accelCruise
      else if but = Buttons_value ext SET_DECEL then decelCruise
      else if but = Buttons_value ext GAP_DIST then gapAdjustCruise
      else if but = Buttons_value ext CANCEL then cancel
      else unknown)"

subsection \<open>update, lines 344 to 355: the loop over the stored button events\<close>

text \<open>
  \<^verbatim>\<open>events.add(name)\<close> appends the name to the list the Events object holds, so the
  events are a list and a name can occur more than once. The three tests of the loop
  body are separate \<^verbatim>\<open>if\<close> statements.
\<close>

fun handle_button_press ::
  "CarState \<Rightarrow> CarController \<Rightarrow> ButtonEvent list \<Rightarrow> EventName list \<Rightarrow> EventName list" where
  "handle_button_press ret cc [] events = events"
| "handle_button_press ret cc (b # bs) events =
     handle_button_press ret cc bs
       (events
        @ (if type b = decelCruise \<and> pressed b \<and> (\<not> brakePressed ret \<or> standstill ret)
           then [buttonEnable, pcmEnable] else [])
        @ (if type b = accelCruise \<and> pressed b
              \<and> (setspeed cc > clu11_speed cc - 2 \<or> standstill ret \<or> usestockscc cc)
           then [buttonEnable, pcmEnable] else [])
        @ (if type b = cancel \<and> pressed b
           then [buttonCancel, pcmDisable] else []))"

subsection \<open>update\<close>

text \<open>
  The function returns the interface object as the call leaves it, and either the
  message or the exception. A timer counts as true when it is not zero.

  When \<^verbatim>\<open>self.CC\<close> is \<^verbatim>\<open>None\<close>, line 279 is guarded but the later reads of
  \<^verbatim>\<open>self.CC\<close> are not: line 282 raises AttributeError unless the speed test, evaluated
  first, is true; in that case the latch is cleared and a later line raises (line 294
  always reads \<^verbatim>\<open>self.CC.lanechange_manual_timer\<close>). Nothing else is written before.

  The mode selector is read from \<^verbatim>\<open>self.CS.out\<close>, the message of the previous call.
  The local list \<^verbatim>\<open>buttonEvents\<close> is stored in \<^verbatim>\<open>self.buttonEvents\<close> only inside the
  two edge tests, so without an edge the stored list of the previous call stays.
\<close>

definition update ::
  "externals \<Rightarrow> CarInterface \<Rightarrow> cycle \<Rightarrow> CarInterface \<times> (error + CarState)" where
  "update ext self c =
     (let ret = CS_update c;
          ret = ret\<lparr>canValid := cp_can_valid c \<and> cp2_can_valid c \<and> cp_cam_can_valid c\<rparr>;
          events = create_common_events c
      in case CC c of
           None \<Rightarrow>
             (if vEgo ret > minSteerSpeed (CP self) + 0.84
              then (self\<lparr>low_speed_alert := False\<rparr>, Inl AttributeError)
              else (self, Inl AttributeError))
         | Some cc \<Rightarrow>
             (let ret = ret\<lparr>steeringRateLimited := steer_rate_limited cc\<rparr>;
                  self = (if vEgo ret > minSteerSpeed (CP self) + 0.84 \<or> \<not> enabled cc
                          then self\<lparr>low_speed_alert := False\<rparr> else self);
                  self = (if sccBus (CP self) = 2
                          then self\<lparr>CP := (CP self)\<lparr>enableCruise := usestockscc cc\<rparr>\<rparr>
                          else self);
                  events = events @ (if CS_parkBrake c \<and> \<not> usestockscc cc
                                     then [parkBrake] else []);
                  events = events @ (if CS_brakeUnavailable c \<and> \<not> usestockscc cc
                                     then [brakeUnavailable] else []);
                  events = events @ (if lanechange_manual_timer cc \<noteq> 0 \<and> vEgo ret > 0.3
                                     then [laneChangeManual] else []);
                  events = events @ (if emergency_manual_timer cc \<noteq> 0
                                     then [emgButtonManual] else []);
                  events = events @
                    (if mode_change_timer cc \<noteq> 0 \<and> cruiseState_modeSel (CS_out self) = 0
                     then [modeChangeOpenpilot]
                     else if mode_change_timer cc \<noteq> 0 \<and> cruiseState_modeSel (CS_out self) = 1
                     then [modeChangeDistcurv]
                     else if mode_change_timer cc \<noteq> 0 \<and> cruiseState_modeSel (CS_out self) = 2
                     then [modeChangeDistance]
                     else if mode_change_timer cc \<noteq> 0 \<and> cruiseState_modeSel (CS_out self) = 3
                     then [modeChangeOneway]
                     else if mode_change_timer cc \<noteq> 0 \<and> cruiseState_modeSel (CS_out self) = 4
                     then [modeChangeMaponly]
                     else []);
                  self = (if acc_standstill_timer cc \<ge> 200
                          then self\<lparr>CP := (CP self)\<lparr>standStill := True\<rparr>\<rparr>
                          else self\<lparr>CP := (CP self)\<lparr>standStill := False\<rparr>\<rparr>);
                  self = self\<lparr>CP := (CP self)\<lparr>vCruisekph := setspeed cc\<rparr>\<rparr>;
                  local_buttonEvents = [];
                  local_buttonEvents =
                    (if CS_cruise_buttons c \<noteq> CS_prev_cruise_buttons c
                     then local_buttonEvents @
                            [\<lparr>type = button_type ext (CS_cruise_buttons c),
                              pressed = (CS_cruise_buttons c \<noteq> 0)\<rparr>]
                     else local_buttonEvents);
                  self = (if CS_cruise_buttons c \<noteq> CS_prev_cruise_buttons c
                          then self\<lparr>buttonEvents := local_buttonEvents\<rparr> else self);
                  local_buttonEvents =
                    (if CS_cruise_main_button c \<noteq> CS_prev_cruise_main_button c
                     then local_buttonEvents @
                            [\<lparr>type = altButton3, pressed = (CS_cruise_main_button c \<noteq> 0)\<rparr>]
                     else local_buttonEvents);
                  self = (if CS_cruise_main_button c \<noteq> CS_prev_cruise_main_button c
                          then self\<lparr>buttonEvents := local_buttonEvents\<rparr> else self);
                  ret = ret\<lparr>msg_buttonEvents := buttonEvents self\<rparr>;
                  events = (if \<not> enableCruise (CP self)
                            then handle_button_press ret cc (buttonEvents self) events
                            else events);
                  ret = ret\<lparr>msg_events := events\<rparr>;
                  self = self\<lparr>CS_out := ret\<rparr>
              in (self, Inr ret)))"

text \<open>
  The interface object after a sequence of calls of update, one element of the list for
  each call. What a call wrote before raising stays written.
\<close>

fun updates :: "externals \<Rightarrow> CarInterface \<Rightarrow> cycle list \<Rightarrow> CarInterface" where
  "updates ext self [] = self"
| "updates ext self (c # cs) = updates ext (fst (update ext self c)) cs"

subsection \<open>update as seen from the loop\<close>

text \<open>
  Two readings of update for the proofs: the list \<^verbatim>\<open>events\<close> and the interface object
  as they stand when the loop of line 344 is reached, in a call where \<^verbatim>\<open>self.CC\<close> is
  the controller \<open>cc\<close>. Lemma \<open>update_with_controller\<close> shows that update computes them.
\<close>

definition events_before_loop :: "CarInterface \<Rightarrow> CarController \<Rightarrow> cycle \<Rightarrow> EventName list" where
  "events_before_loop self cc c =
     create_common_events c
     @ (if CS_parkBrake c \<and> \<not> usestockscc cc then [parkBrake] else [])
     @ (if CS_brakeUnavailable c \<and> \<not> usestockscc cc then [brakeUnavailable] else [])
     @ (if lanechange_manual_timer cc \<noteq> 0 \<and> vEgo (CS_update c) > 0.3
        then [laneChangeManual] else [])
     @ (if emergency_manual_timer cc \<noteq> 0 then [emgButtonManual] else [])
     @ (if mode_change_timer cc \<noteq> 0 \<and> cruiseState_modeSel (CS_out self) = 0
        then [modeChangeOpenpilot]
        else if mode_change_timer cc \<noteq> 0 \<and> cruiseState_modeSel (CS_out self) = 1
        then [modeChangeDistcurv]
        else if mode_change_timer cc \<noteq> 0 \<and> cruiseState_modeSel (CS_out self) = 2
        then [modeChangeDistance]
        else if mode_change_timer cc \<noteq> 0 \<and> cruiseState_modeSel (CS_out self) = 3
        then [modeChangeOneway]
        else if mode_change_timer cc \<noteq> 0 \<and> cruiseState_modeSel (CS_out self) = 4
        then [modeChangeMaponly]
        else [])"

definition interface_before_loop ::
  "externals \<Rightarrow> CarInterface \<Rightarrow> CarController \<Rightarrow> cycle \<Rightarrow> CarInterface" where
  "interface_before_loop ext self cc c =
     \<lparr>CP = (CP self)\<lparr>
        enableCruise := (if sccBus (CP self) = 2 then usestockscc cc
                         else enableCruise (CP self)),
        standStill := (acc_standstill_timer cc \<ge> 200),
        vCruisekph := setspeed cc\<rparr>,
      CS_out = CS_out self,
      buttonEvents =
        (if CS_cruise_buttons c \<noteq> CS_prev_cruise_buttons c
         then [\<lparr>type = button_type ext (CS_cruise_buttons c),
                 pressed = (CS_cruise_buttons c \<noteq> 0)\<rparr>]
              @ (if CS_cruise_main_button c \<noteq> CS_prev_cruise_main_button c
                 then [\<lparr>type = altButton3, pressed = (CS_cruise_main_button c \<noteq> 0)\<rparr>]
                 else [])
         else if CS_cruise_main_button c \<noteq> CS_prev_cruise_main_button c
         then [\<lparr>type = altButton3, pressed = (CS_cruise_main_button c \<noteq> 0)\<rparr>]
         else buttonEvents self),
      low_speed_alert =
        (low_speed_alert self
         \<and> \<not> (vEgo (CS_update c) > minSteerSpeed (CP self) + 0.84 \<or> \<not> enabled cc))\<rparr>"

definition message_before_loop :: "CarInterface \<Rightarrow> CarController \<Rightarrow> cycle \<Rightarrow> CarState" where
  "message_before_loop self' cc c =
     (CS_update c)\<lparr>canValid := cp_can_valid c \<and> cp2_can_valid c \<and> cp_cam_can_valid c,
                   steeringRateLimited := steer_rate_limited cc,
                   msg_buttonEvents := buttonEvents self'\<rparr>"

subsection \<open>Predicates used in the statements\<close>

text \<open>The five mode-change events of lines 298 to 307.\<close>

definition is_mode_change :: "EventName \<Rightarrow> bool" where
  "is_mode_change e =
     (e = modeChangeOpenpilot \<or> e = modeChangeDistcurv \<or> e = modeChangeDistance
      \<or> e = modeChangeOneway \<or> e = modeChangeMaponly)"

text \<open>The keys of the store that lines 31 to 51 read as decimals, in that order.\<close>

definition decimal_keys :: "string list" where
  "decimal_keys =
     [''PidKp'', ''PidKi'', ''PidKd'', ''PidKf'', ''InnerLoopGain'', ''OuterLoopGain'',
      ''TimeConstant'', ''ActuatorEffectiveness'', ''Scale'', ''LqrKi'', ''DcGain'',
      ''SteerMaxvAdj'', ''TireStiffnessFactorAdj'', ''SteerActuatorDelayAdj'',
      ''SteerRateCostAdj'', ''SteerLimitTimerAdj'', ''SteerRatioAdj'']"

definition is_stored :: "'a stored \<Rightarrow> bool" where
  "is_stored x = (case x of Stored v \<Rightarrow> True | _ \<Rightarrow> False)"

definition is_finite :: "decimal_text \<Rightarrow> bool" where
  "is_finite x = (case x of Finite v \<Rightarrow> True | _ \<Rightarrow> False)"

definition is_computed :: "'a computed \<Rightarrow> bool" where
  "is_computed x = (case x of Computed v \<Rightarrow> True | _ \<Rightarrow> False)"

definition is_pid :: "lateralTuning_union \<Rightarrow> bool" where
  "is_pid u = (case u of Pid p \<Rightarrow> True | _ \<Rightarrow> False)"

subsection \<open>Sample inputs\<close>

text \<open>
  Concrete inputs on which the functions are evaluated below. The theorems hold for
  every value of the externals; the samples fix one. Each member of \<^verbatim>\<open>CAR\<close> gets its own
  name as identifier and the buttons get the codes 1 to 4. The record of get_std_params
  is a new message with the pid member active and stock cruise enabled; its mass and
  wheelbase are zero, the default of a new message. The two scaling helpers follow
  \<^verbatim>\<open>selfdrive/car/__init__.py\<close> of openpilot, which is not among the sources here: they
  scale the reference values of the Civic (mass \<^verbatim>\<open>1326 + STD_CARGO_KG\<close>, wheelbase 2.70,
  inertia 2500, tire stiffness 192150 and 202500), and \<^verbatim>\<open>scale_tire_stiffness\<close> divides
  by the wheelbase, which raises ZeroDivisionError when the wheelbase is zero.
\<close>

fun sample_CAR_value :: "CAR \<Rightarrow> string" where
  "sample_CAR_value GENESIS = ''GENESIS''"
| "sample_CAR_value GENESIS_G70 = ''GENESIS G70''"
| "sample_CAR_value GENESIS_G80 = ''GENESIS G80''"
| "sample_CAR_value GENESIS_G90 = ''GENESIS G90''"
| "sample_CAR_value SANTA_FE = ''SANTA FE''"
| "sample_CAR_value SONATA = ''SONATA''"
| "sample_CAR_value SONATA_HEV = ''SONATA HEV''"
| "sample_CAR_value SONATA_LF = ''SONATA LF''"
| "sample_CAR_value SONATA_LF_TURBO = ''SONATA LF TURBO''"
| "sample_CAR_value SONATA_LF_HEV = ''SONATA LF HEV''"
| "sample_CAR_value PALISADE = ''PALISADE''"
| "sample_CAR_value AVANTE = ''AVANTE''"
| "sample_CAR_value I30 = ''I30''"
| "sample_CAR_value KONA = ''KONA''"
| "sample_CAR_value KONA_HEV = ''KONA HEV''"
| "sample_CAR_value KONA_EV = ''KONA EV''"
| "sample_CAR_value IONIQ_HEV = ''IONIQ HEV''"
| "sample_CAR_value IONIQ_EV = ''IONIQ EV''"
| "sample_CAR_value GRANDEUR_IG = ''GRANDEUR IG''"
| "sample_CAR_value GRANDEUR_IG_HEV = ''GRANDEUR IG HEV''"
| "sample_CAR_value GRANDEUR_IG_FL = ''GRANDEUR IG FL''"
| "sample_CAR_value GRANDEUR_IG_FL_HEV = ''GRANDEUR IG FL HEV''"
| "sample_CAR_value VELOSTER = ''VELOSTER''"
| "sample_CAR_value NEXO = ''NEXO''"
| "sample_CAR_value SORENTO = ''SORENTO''"
| "sample_CAR_value K5 = ''K5''"
| "sample_CAR_value K5_HEV = ''K5 HEV''"
| "sample_CAR_value STINGER = ''STINGER''"
| "sample_CAR_value K3 = ''K3''"
| "sample_CAR_value CEED = ''CEED''"
| "sample_CAR_value SPORTAGE = ''SPORTAGE''"
| "sample_CAR_value NIRO_HEV = ''NIRO HEV''"
| "sample_CAR_value NIRO_EV = ''NIRO EV''"
| "sample_CAR_value K7 = ''K7''"
| "sample_CAR_value K7_HEV = ''K7 HEV''"
| "sample_CAR_value SELTOS = ''SELTOS''"
| "sample_CAR_value SOUL_EV = ''SOUL EV''"

fun sample_Buttons_value :: "Buttons \<Rightarrow> int" where
  "sample_Buttons_value RES_ACCEL = 1"
| "sample_Buttons_value SET_DECEL = 2"
| "sample_Buttons_value GAP_DIST = 3"
| "sample_Buttons_value CANCEL = 4"

definition sample_std :: CarParams where
  "sample_std =
     \<lparr>carFingerprint = [], carName = [], safetyModel = silent, communityFeature = False,
      steerActuatorDelay = 0, steerRateCost = 0, steerLimitTimer = 0, steerRatio = 0,
      lateralTuning = Pid \<lparr>pid_kpBP = [], pid_kpV = [], pid_kiBP = [], pid_kiV = [],
                           pid_kdBP = [], pid_kdV = [], pid_kf = 0, pid_newKfTuned = False\<rparr>,
      steerMaxV = [1], steerMaxBP = [0], mass = 0, wheelbase = 0, radarTimeStep = 0,
      centerToFront = 0, rotationalInertia = 0, tireStiffnessFront = 0,
      tireStiffnessRear = 0, steerRatioRear = 0, steerControlType = torque,
      gasMaxBP = [], gasMaxV = [], brakeMaxBP = [], brakeMaxV = [],
      longitudinalTuning = \<lparr>long_kpBP = [], long_kpV = [], long_kiBP = [], long_kiV = [],
                             long_deadzoneBP = [], long_deadzoneV = [], long_kdBP = [],
                             long_kdV = [], long_kfBP = [], long_kfV = []\<rparr>,
      enableCamera = False, enableBsm = False, stoppingControl = False, startAccel = 0,
      vCruisekph = 0, mdpsBus = 0, sasBus = 0, sccBus = 0, fcaBus = 0,
      bsmAvailable = False, lfaAvailable = False, lvrAvailable = False,
      evgearAvailable = False, emsAvailable = False, minSteerSpeed = 5,
      openpilotLongitudinalControl = False, enableCruise = True, radarOffCan = False,
      standStill = False\<rparr>"

definition sample_scale_rot_inertia :: "real \<Rightarrow> real \<Rightarrow> real computed" where
  "sample_scale_rot_inertia m w =
     Computed (2500 * m * w ^ 2 / ((1326 + 136) * 2.70 ^ 2))"

definition sample_scale_tire_stiffness ::
  "real \<Rightarrow> real \<Rightarrow> real \<Rightarrow> real \<Rightarrow> (real \<times> real) computed" where
  "sample_scale_tire_stiffness m w center_to_front factor =
     (let center_to_rear = w - center_to_front
      in if w = 0 then ZeroDivision
         else Computed
           ((192150 * factor) * m / (1326 + 136)
              * (center_to_rear / w) / ((2.70 - 2.70 * 0.4) / 2.70),
            (202500 * factor) * m / (1326 + 136)
              * (center_to_front / w) / ((2.70 * 0.4) / 2.70)))"

definition sample_externals :: externals where
  "sample_externals =
     \<lparr>CAR_value = sample_CAR_value,
      Buttons_value = sample_Buttons_value,
      STD_CARGO_KG = 136,
      LB_TO_KG = 0.453592,
      scale_rot_inertia = sample_scale_rot_inertia,
      scale_tire_stiffness = sample_scale_tire_stiffness,
      get_std_params = (\<lambda>candidate fingerprint. sample_std\<lparr>carFingerprint := candidate\<rparr>)\<rparr>"

text \<open>A store where every decimal key holds 100, with the given method and harness flag.\<close>

definition sample_params :: "int \<Rightarrow> bool \<Rightarrow> Params" where
  "sample_params method harness =
     \<lparr>get_decimal = (\<lambda>key. Finite 100),
      get_int = (\<lambda>key. if key = ''LateralControlMethod'' then Stored method else Missing),
      get_bool = (\<lambda>key. key = ''MdpsHarness'' \<and> harness)\<rparr>"

text \<open>
  Bus 0 shows 809 and 1057 (and not 608 or 909); bus 2 shows 909 and 1057.
\<close>

definition sample_ids0 :: "int \<rightharpoonup> int" where
  "sample_ids0 = [809 \<mapsto> 8, 1057 \<mapsto> 8]"

definition sample_ids2 :: "int \<rightharpoonup> int" where
  "sample_ids2 = [909 \<mapsto> 8, 1057 \<mapsto> 8]"

definition sample_fingerprint :: fingerprint where
  "sample_fingerprint = [0 \<mapsto> sample_ids0, 1 \<mapsto> Map.empty, 2 \<mapsto> sample_ids2, 3 \<mapsto> Map.empty]"

definition sample_CarState :: "real \<Rightarrow> CarState" where
  "sample_CarState v =
     \<lparr>vEgo = v, brakePressed = True, standstill = False, cruiseState_modeSel = 2,
      canValid = False, steeringRateLimited = False, msg_buttonEvents = [], msg_events = []\<rparr>"

definition sample_CarController :: CarController where
  "sample_CarController =
     \<lparr>enabled = True, usestockscc = False, steer_rate_limited = False,
      lanechange_manual_timer = 0, emergency_manual_timer = 0, mode_change_timer = 7,
      acc_standstill_timer = 0, setspeed = 30, clu11_speed = 50\<rparr>"

text \<open>A call at speed \<open>v\<close> with the cruise-button code going from \<open>prev\<close> to \<open>but\<close>.\<close>

definition sample_cycle :: "real \<Rightarrow> int \<Rightarrow> int \<Rightarrow> cycle" where
  "sample_cycle v but prev =
     \<lparr>cp_can_valid = True, cp2_can_valid = True, cp_cam_can_valid = True,
      CS_update = sample_CarState v,
      CS_parkBrake = False, CS_brakeUnavailable = False,
      CS_cruise_buttons = but, CS_prev_cruise_buttons = prev,
      CS_cruise_main_button = 0, CS_prev_cruise_main_button = 0,
      create_common_events = [otherEvent 0],
      CC = Some sample_CarController\<rparr>"

definition sample_CP :: CarParams where
  "sample_CP = sample_std\<lparr>sccBus := - 1, enableCruise := False, minSteerSpeed := 0\<rparr>"

definition sample_interface :: "CarParams \<Rightarrow> CarInterface" where
  "sample_interface cp =
     \<lparr>CP = cp, CS_out = sample_CarState 0, buttonEvents = [], low_speed_alert = True\<rparr>"

section \<open>Properties of get_params\<close>

subsection \<open>How a call of get_params returns\<close>

lemma bind_Inr_iff: "bind m f = Inr r \<longleftrightarrow> (\<exists>v. m = Inr v \<and> f v = Inr r)"
  by (cases m) (simp_all add: bind_def)

lemma bind_Inl_iff: "bind m f = Inl e \<longleftrightarrow> (m = Inl e \<or> (\<exists>v. m = Inr v \<and> f v = Inl e))"
  by (cases m) (simp_all add: bind_def)

lemma bus_ids_Inr_iff: "bus_ids fp b = Inr ids \<longleftrightarrow> fp b = Some ids"
  by (simp add: bus_ids_def split: option.splits)

lemma raise_or_value_errors:
  "raise_or_value x = Inl e \<Longrightarrow> e = ZeroDivisionError \<or> e = OverflowError"
  by (cases x) (auto simp: raise_or_value_def)

lemma is_computed_iff: "is_computed x \<longleftrightarrow> (\<exists>v. x = Computed v)"
  by (cases x) (simp_all add: is_computed_def)

lemma get_params_InrE:
  assumes "get_params ext params candidate fingerprint = Inr r"
  obtains t ret ret' ids0 ids2 where
    "read_tunables params = Inr t"
    "lateral_tuning t ((get_std_params ext candidate fingerprint)
        \<lparr>carName := ''hyundai'', safetyModel := hyundai, communityFeature := False,
         steerActuatorDelay := SteerActuatorDelayAdj t,
         steerRateCost := SteerRateCostAdj t,
         steerLimitTimer := SteerLimitTimerAdj t,
         steerRatio := SteerRatioAdj t\<rparr>) = Inr ret"
    "dynamics ext t (vehicle_profile ext candidate
        (ret\<lparr>steerMaxV := [SteerMaxV t], steerMaxBP := [0]\<rparr>)) = Inr ret'"
    "fingerprint 0 = Some ids0" "fingerprint 2 = Some ids2"
    "r = final_overrides (bus_topology params ids0 ids2 ret')"
  using assms unfolding get_params_def Let_def bind_Inr_iff bus_ids_Inr_iff
  by auto

lemma sccBus_final: "sccBus (final_overrides ret) = - 1"
  by (simp add: final_overrides_def Let_def)

lemma enableCruise_final: "enableCruise (final_overrides ret) = False"
  by (simp add: final_overrides_def Let_def)

lemma fcaBus_final: "fcaBus (final_overrides ret) = (if fcaBus ret = 0 then - 1 else fcaBus ret)"
  by (simp add: final_overrides_def Let_def)

lemma mdpsBus_final: "mdpsBus (final_overrides ret) = mdpsBus ret"
  by (simp add: final_overrides_def Let_def)

lemma minSteerSpeed_final:
  "minSteerSpeed (final_overrides ret) = (if mdpsBus ret = 1 then 0 else minSteerSpeed ret)"
  by (simp add: final_overrides_def Let_def)

lemma emsAvailable_final: "emsAvailable (final_overrides ret) = emsAvailable ret"
  by (simp add: final_overrides_def Let_def)

lemma lateralTuning_final: "lateralTuning (final_overrides ret) = lateralTuning ret"
  by (simp add: final_overrides_def Let_def)

lemma fcaBus_topology:
  "fcaBus (bus_topology params ids0 ids2 ret) =
     (if py_in 909 ids0 then 0 else if py_in 909 ids2 then 2 else - 1)"
  by (simp add: bus_topology_def Let_def)

lemma mdpsBus_topology:
  "mdpsBus (bus_topology params ids0 ids2 ret) = (if get_bool params ''MdpsHarness'' then 1 else 0)"
  by (simp add: bus_topology_def Let_def)

lemma emsAvailable_topology:
  "emsAvailable (bus_topology params ids0 ids2 ret) = py_in 809 ids0"
  by (simp add: bus_topology_def Let_def)

lemma lateralTuning_topology:
  "lateralTuning (bus_topology params ids0 ids2 ret) = lateralTuning ret"
  by (simp add: bus_topology_def Let_def)

lemma dynamics_frame:
  assumes "dynamics ext t ret = Inr ret'"
  shows "mass ret' = mass ret \<and> wheelbase ret' = wheelbase ret
       \<and> lateralTuning ret' = lateralTuning ret"
  using assms unfolding dynamics_def Let_def bind_Inr_iff
  by auto

lemma dynamics_errors:
  "dynamics ext t ret = Inl e \<Longrightarrow> e = ZeroDivisionError \<or> e = OverflowError"
  unfolding dynamics_def Let_def bind_Inl_iff
  by (auto dest: raise_or_value_errors)

lemma dynamics_returns:
  assumes "is_computed (scale_rot_inertia ext (mass ret) (wheelbase ret))"
      and "is_computed (scale_tire_stiffness ext (mass ret) (wheelbase ret)
                          (wheelbase ret * 0.4) (tire_stiffness_factor t))"
  shows "\<exists>ret'. dynamics ext t ret = Inr ret'"
proof -
  obtain i where i: "scale_rot_inertia ext (mass ret) (wheelbase ret) = Computed i"
    using assms(1) by (auto simp: is_computed_iff)
  obtain s where s: "scale_tire_stiffness ext (mass ret) (wheelbase ret)
                          (wheelbase ret * 0.4) (tire_stiffness_factor t) = Computed s"
    using assms(2) by (auto simp: is_computed_iff)
  show ?thesis
    using i s by (simp add: dynamics_def Let_def bind_def raise_or_value_def)
qed

lemma dynamics_zero_division:
  assumes "is_computed (scale_rot_inertia ext (mass ret) (wheelbase ret))"
      and "scale_tire_stiffness ext (mass ret) (wheelbase ret)
                          (wheelbase ret * 0.4) (tire_stiffness_factor t) = ZeroDivision"
  shows "dynamics ext t ret = Inl ZeroDivisionError"
proof -
  obtain i where i: "scale_rot_inertia ext (mass ret) (wheelbase ret) = Computed i"
    using assms(1) by (auto simp: is_computed_iff)
  show ?thesis
    using i assms(2) by (simp add: dynamics_def Let_def bind_def raise_or_value_def)
qed

lemma lateralTuning_profile: "lateralTuning (vehicle_profile ext candidate ret) = lateralTuning ret"
  by (simp add: vehicle_profile_def)

lemma vehicle_profile_unmatched:
  "candidate \<notin> range (CAR_value ext) \<Longrightarrow> vehicle_profile ext candidate ret = ret"
  unfolding vehicle_profile_def by (simp add: image_iff)

lemma vehicle_profile_mass_wheelbase:
  assumes "mass ret = mass ret'" and "wheelbase ret = wheelbase ret'"
  shows "mass (vehicle_profile ext candidate ret) = mass (vehicle_profile ext candidate ret')
       \<and> wheelbase (vehicle_profile ext candidate ret)
           = wheelbase (vehicle_profile ext candidate ret')"
  using assms by (simp add: vehicle_profile_def)

lemma is_stored_iff: "is_stored x \<longleftrightarrow> (\<exists>v. x = Stored v)"
  by (cases x) (simp_all add: is_stored_def)

lemma is_finite_iff: "is_finite x \<longleftrightarrow> (\<exists>v. x = Finite v)"
  by (cases x) (simp_all add: is_finite_def)

lemma read_int_stored:
  "get_int params key = Stored m \<Longrightarrow> read_int params key = Inr m"
  by (simp add: read_int_def)

lemma read_scaled_errors:
  "read_scaled params key scale = Inl e \<Longrightarrow> e = TypeError \<or> e = InvalidOperation \<or> e = Overflow"
  by (auto simp: read_scaled_def split: decimal_text.splits)

lemma read_int_errors:
  "read_int params key = Inl e \<Longrightarrow> e = TypeError \<or> e = ValueError"
  by (auto simp: read_int_def split: stored.splits)

lemma read_tunables_errors:
  "read_tunables params = Inl e \<Longrightarrow>
     e = TypeError \<or> e = InvalidOperation \<or> e = Overflow \<or> e = ValueError"
  unfolding read_tunables_def bind_Inl_iff
  by (auto dest: read_scaled_errors read_int_errors)

lemma read_tunables_method:
  "read_tunables params = Inr t \<Longrightarrow> get_int params ''LateralControlMethod'' = Stored (lat_control_method t)"
  unfolding read_tunables_def bind_Inr_iff read_int_def
  by (auto split: stored.splits)

lemma read_tunables_returns:
  assumes "\<forall>key \<in> set decimal_keys. is_finite (get_decimal params key)"
      and "get_int params ''LateralControlMethod'' = Stored m"
  shows "\<exists>t. read_tunables params = Inr t \<and> lat_control_method t = m"
proof -
  have "\<exists>f. \<forall>key \<in> set decimal_keys. get_decimal params key = Finite (f key)"
    by (rule bchoice) (use assms(1) in \<open>simp add: is_finite_iff\<close>)
  then obtain f where f: "\<And>key. key \<in> set decimal_keys \<Longrightarrow> get_decimal params key = Finite (f key)"
    by blast
  have g: "\<And>key scale. key \<in> set decimal_keys \<Longrightarrow> read_scaled params key scale = Inr (f key * scale)"
    by (simp add: read_scaled_def f)
  show ?thesis
    unfolding read_tunables_def read_int_stored [OF assms(2)]
    by (simp add: g bind_def decimal_keys_def)
qed

lemma lateral_tuning_errors:
  "lateral_tuning t ret = Inl e \<Longrightarrow> e = UnionMemberError"
  by (auto simp: lateral_tuning_def split: if_splits lateralTuning_union.splits)

lemma lateral_tuning_other:
  "lat_control_method t \<notin> {0, 1, 2} \<Longrightarrow> lateral_tuning t ret = Inr ret"
  by (simp add: lateral_tuning_def)

lemma lateral_tuning_returns:
  "lat_control_method t = 0 \<longrightarrow> is_pid (lateralTuning ret) \<Longrightarrow> \<exists>ret'. lateral_tuning t ret = Inr ret'"
  by (auto simp: lateral_tuning_def is_pid_def split: lateralTuning_union.splits)

lemma lateral_tuning_frame:
  "lateral_tuning t ret = Inr ret' \<Longrightarrow> mass ret' = mass ret \<and> wheelbase ret' = wheelbase ret \<and> minSteerSpeed ret' = minSteerSpeed ret"
  by (auto simp: lateral_tuning_def split: if_splits lateralTuning_union.splits)

lemma get_params_errors:
  assumes "get_params ext params candidate fingerprint = Inl e"
  shows "e = TypeError \<or> e = InvalidOperation \<or> e = Overflow \<or> e = ValueError
       \<or> e = UnionMemberError \<or> e = ZeroDivisionError \<or> e = OverflowError \<or> e = KeyError"
  using assms unfolding get_params_def Let_def bind_Inl_iff
  by (auto dest: read_tunables_errors lateral_tuning_errors dynamics_errors
        simp: bus_ids_def split: option.splits)

text \<open>
  Once the store is read and the tuning step has returned, the call goes on to the
  scaling helpers with the mass and wheelbase that lines 108 to 195 leave.
\<close>

lemma get_params_after_tuning:
  assumes "read_tunables params = Inr t"
      and "lat_control_method t = 0 \<longrightarrow> is_pid (lateralTuning (get_std_params ext candidate fingerprint))"
  shows "\<exists>ret. mass ret = mass (vehicle_profile ext candidate (get_std_params ext candidate fingerprint))
           \<and> wheelbase ret
               = wheelbase (vehicle_profile ext candidate (get_std_params ext candidate fingerprint))
           \<and> get_params ext params candidate fingerprint =
               bind (dynamics ext t ret) (\<lambda>ret.
               bind (bus_ids fingerprint 0) (\<lambda>ids0.
               bind (bus_ids fingerprint 2) (\<lambda>ids2.
               Inr (final_overrides (bus_topology params ids0 ids2 ret)))))"
proof -
  let ?std = "get_std_params ext candidate fingerprint"
  let ?ret = "?std
        \<lparr>carName := ''hyundai'', safetyModel := hyundai, communityFeature := False,
         steerActuatorDelay := SteerActuatorDelayAdj t,
         steerRateCost := SteerRateCostAdj t,
         steerLimitTimer := SteerLimitTimerAdj t,
         steerRatio := SteerRatioAdj t\<rparr>"
  have "lat_control_method t = 0 \<longrightarrow> is_pid (lateralTuning ?ret)"
    using assms(2) by simp
  then obtain ret' where l: "lateral_tuning t ?ret = Inr ret'"
    using lateral_tuning_returns by blast
  let ?ret2 = "ret'\<lparr>steerMaxV := [SteerMaxV t], steerMaxBP := [0]\<rparr>"
  have "mass ?ret2 = mass ?std" "wheelbase ?ret2 = wheelbase ?std"
    using lateral_tuning_frame [OF l] by simp_all
  then have m: "mass (vehicle_profile ext candidate ?ret2) = mass (vehicle_profile ext candidate ?std)
       \<and> wheelbase (vehicle_profile ext candidate ?ret2)
           = wheelbase (vehicle_profile ext candidate ?std)"
    by (rule vehicle_profile_mass_wheelbase)
  have "get_params ext params candidate fingerprint =
               bind (dynamics ext t (vehicle_profile ext candidate ?ret2)) (\<lambda>ret.
               bind (bus_ids fingerprint 0) (\<lambda>ids0.
               bind (bus_ids fingerprint 2) (\<lambda>ids2.
               Inr (final_overrides (bus_topology params ids0 ids2 ret)))))"
    by (simp add: get_params_def Let_def assms(1) l bind_def)
  with m show ?thesis by blast
qed

lemma get_params_returns:
  assumes "read_tunables params = Inr t"
      and "lat_control_method t = 0 \<longrightarrow> is_pid (lateralTuning (get_std_params ext candidate fingerprint))"
      and "is_computed (scale_rot_inertia ext
             (mass (vehicle_profile ext candidate (get_std_params ext candidate fingerprint)))
             (wheelbase (vehicle_profile ext candidate (get_std_params ext candidate fingerprint))))"
      and "is_computed (scale_tire_stiffness ext
             (mass (vehicle_profile ext candidate (get_std_params ext candidate fingerprint)))
             (wheelbase (vehicle_profile ext candidate (get_std_params ext candidate fingerprint)))
             (wheelbase (vehicle_profile ext candidate (get_std_params ext candidate fingerprint))
                * 0.4)
             (tire_stiffness_factor t))"
      and "fingerprint 0 = Some ids0" and "fingerprint 2 = Some ids2"
  shows "\<exists>r. get_params ext params candidate fingerprint = Inr r"
proof -
  obtain ret where ret:
      "mass ret = mass (vehicle_profile ext candidate (get_std_params ext candidate fingerprint))"
      "wheelbase ret
         = wheelbase (vehicle_profile ext candidate (get_std_params ext candidate fingerprint))"
      "get_params ext params candidate fingerprint =
               bind (dynamics ext t ret) (\<lambda>ret.
               bind (bus_ids fingerprint 0) (\<lambda>ids0.
               bind (bus_ids fingerprint 2) (\<lambda>ids2.
               Inr (final_overrides (bus_topology params ids0 ids2 ret)))))"
    using get_params_after_tuning [OF assms(1,2)] by blast
  obtain ret' where "dynamics ext t ret = Inr ret'"
    using dynamics_returns [of ext ret t] assms(3,4) ret(1,2) by auto
  then show ?thesis
    by (simp add: ret(3) bind_def bus_ids_def assms(5,6))
qed

lemma get_params_zero_division:
  assumes "read_tunables params = Inr t"
      and "lat_control_method t = 0 \<longrightarrow> is_pid (lateralTuning (get_std_params ext candidate fingerprint))"
      and "is_computed (scale_rot_inertia ext
             (mass (vehicle_profile ext candidate (get_std_params ext candidate fingerprint)))
             (wheelbase (vehicle_profile ext candidate (get_std_params ext candidate fingerprint))))"
      and "scale_tire_stiffness ext
             (mass (vehicle_profile ext candidate (get_std_params ext candidate fingerprint)))
             (wheelbase (vehicle_profile ext candidate (get_std_params ext candidate fingerprint)))
             (wheelbase (vehicle_profile ext candidate (get_std_params ext candidate fingerprint))
                * 0.4)
             (tire_stiffness_factor t) = ZeroDivision"
  shows "get_params ext params candidate fingerprint = Inl ZeroDivisionError"
proof -
  obtain ret where ret:
      "mass ret = mass (vehicle_profile ext candidate (get_std_params ext candidate fingerprint))"
      "wheelbase ret
         = wheelbase (vehicle_profile ext candidate (get_std_params ext candidate fingerprint))"
      "get_params ext params candidate fingerprint =
               bind (dynamics ext t ret) (\<lambda>ret.
               bind (bus_ids fingerprint 0) (\<lambda>ids0.
               bind (bus_ids fingerprint 2) (\<lambda>ids2.
               Inr (final_overrides (bus_topology params ids0 ids2 ret)))))"
    using get_params_after_tuning [OF assms(1,2)] by blast
  have "dynamics ext t ret = Inl ZeroDivisionError"
    using dynamics_zero_division [of ext ret t] assms(3,4) ret(1,2) by auto
  then show ?thesis
    by (simp add: ret(3) bind_def)
qed

lemma sample_read_tunables:
  "\<exists>t. read_tunables (sample_params m h) = Inr t \<and> lat_control_method t = m"
  by (rule read_tunables_returns) (simp_all add: sample_params_def is_finite_def)

lemma sample_genesis_profile:
  "mass (vehicle_profile sample_externals ''GENESIS''
           (get_std_params sample_externals ''GENESIS'' fp)) = 2036"
  "wheelbase (vehicle_profile sample_externals ''GENESIS''
           (get_std_params sample_externals ''GENESIS'' fp)) = 3.01"
  by (simp_all add: vehicle_profile_def sample_externals_def)

lemma sample_helpers_return:
  "is_computed (scale_rot_inertia sample_externals m w)"
  "w \<noteq> 0 \<Longrightarrow> is_computed (scale_tire_stiffness sample_externals m w c f)"
  by (simp_all add: sample_externals_def sample_scale_rot_inertia_def
        sample_scale_tire_stiffness_def is_computed_def Let_def)

lemma sample_get_params_returns:
  assumes "fp 0 = Some ids0" and "fp 2 = Some ids2"
  shows "\<exists>r. get_params sample_externals (sample_params m h) ''GENESIS'' fp = Inr r"
proof -
  obtain t where t: "read_tunables (sample_params m h) = Inr t"
    using sample_read_tunables by blast
  show ?thesis
  proof (rule get_params_returns [OF t _ _ _ assms])
    show "lat_control_method t = 0 \<longrightarrow>
            is_pid (lateralTuning (get_std_params sample_externals ''GENESIS'' fp))"
      by (simp add: sample_externals_def sample_std_def is_pid_def)
  qed (simp_all add: sample_genesis_profile sample_helpers_return)
qed

lemma sample_not_a_member: "''TOYOTA COROLLA'' \<notin> range sample_CAR_value"
proof
  assume "''TOYOTA COROLLA'' \<in> range sample_CAR_value"
  then obtain c where "sample_CAR_value c = ''TOYOTA COROLLA''" by auto
  then show False by (cases c) simp_all
qed

lemma sample_corolla_zero_division:
  "get_params sample_externals (sample_params 0 False) ''TOYOTA COROLLA'' sample_fingerprint
     = Inl ZeroDivisionError"
proof -
  obtain t where t: "read_tunables (sample_params 0 False) = Inr t"
    using sample_read_tunables by blast
  have n: "''TOYOTA COROLLA'' \<notin> range (CAR_value sample_externals)"
    using sample_not_a_member by (simp add: sample_externals_def)
  show ?thesis
    by (rule get_params_zero_division [OF t];
        (simp only: vehicle_profile_unmatched [OF n])?;
        simp add: sample_externals_def sample_std_def is_pid_def is_computed_def
          sample_scale_rot_inertia_def sample_scale_tire_stiffness_def)
qed

subsection \<open>The claims about get_params\<close>

lemma sample_fingerprint_buses:
  "sample_fingerprint 0 = Some sample_ids0" "sample_fingerprint 2 = Some sample_ids2"
  by (simp_all add: sample_fingerprint_def)

text \<open>
  Claim C2. For every candidate, fingerprint and parameter store, a record returned by
  get_params has \<open>sccBus = -1\<close>: line 260 overwrites what line 242 found.
\<close>

theorem sccBus_always_minus_one:
  "get_params ext params candidate fingerprint = Inr r \<Longrightarrow> sccBus r = - 1"
  by (erule get_params_InrE) (simp add: sccBus_final)

theorem sccBus_always_minus_one_witness:
  "\<not> isl (get_params sample_externals (sample_params 0 False) ''GENESIS'' sample_fingerprint)
   \<and> sccBus (projr (get_params sample_externals (sample_params 0 False) ''GENESIS''
                      sample_fingerprint)) = - 1"
proof -
  obtain r where r: "get_params sample_externals (sample_params 0 False) ''GENESIS''
                       sample_fingerprint = Inr r"
    using sample_get_params_returns [OF sample_fingerprint_buses] by blast
  show ?thesis
    using sccBus_always_minus_one [OF r] r by simp
qed

text \<open>
  A candidate equal to no member of \<^verbatim>\<open>CAR\<close>, on the sample inputs: mass and wheelbase stay
  zero, \<^verbatim>\<open>scale_tire_stiffness\<close> divides by the wheelbase on line 206, and get_params
  fails with ZeroDivisionError, which is not \<open>UnknownVehicle\<close>.
\<close>

theorem unknown_vehicle_counterexample:
  "''TOYOTA COROLLA'' \<notin> range (CAR_value sample_externals)
   \<and> get_params sample_externals (sample_params 0 False) ''TOYOTA COROLLA'' sample_fingerprint
        = Inl ZeroDivisionError
   \<and> get_params sample_externals (sample_params 0 False) ''TOYOTA COROLLA'' sample_fingerprint
        \<noteq> Inl UnknownVehicle"
proof -
  have "''TOYOTA COROLLA'' \<notin> range (CAR_value sample_externals)"
    using sample_not_a_member by (simp add: sample_externals_def)
  then show ?thesis
    by (simp add: sample_corolla_zero_division)
qed

text \<open>
  Claim C3, as the code has it. For a candidate that equals none of the members compared
  on lines 108 to 193, get_params never fails with \<open>UnknownVehicle\<close>, and the chain of
  lines 108 to 195 changes nothing, so mass and wheelbase stay as get_std_params left
  them and go to the scaling helpers. When every decimal key holds a finite decimal, the
  method key holds an integer, the record of get_std_params has the pid member active,
  \<^verbatim>\<open>scale_rot_inertia\<close> returns on that mass and wheelbase and \<^verbatim>\<open>scale_tire_stiffness\<close>
  divides by zero on them for every stiffness factor, get_params fails with
  ZeroDivisionError.
\<close>

theorem unknown_vehicle_keeps_std_values:
  assumes "candidate \<notin> range (CAR_value ext)"
  shows "get_params ext params candidate fingerprint \<noteq> Inl UnknownVehicle
     \<and> (\<forall>ret. vehicle_profile ext candidate ret = ret)
     \<and> ((\<forall>key \<in> set decimal_keys. is_finite (get_decimal params key))
          \<and> is_stored (get_int params ''LateralControlMethod'')
          \<and> is_pid (lateralTuning (get_std_params ext candidate fingerprint))
          \<and> is_computed (scale_rot_inertia ext
                (mass (get_std_params ext candidate fingerprint))
                (wheelbase (get_std_params ext candidate fingerprint)))
          \<and> (\<forall>f. scale_tire_stiffness ext
                (mass (get_std_params ext candidate fingerprint))
                (wheelbase (get_std_params ext candidate fingerprint))
                (wheelbase (get_std_params ext candidate fingerprint) * 0.4) f = ZeroDivision)
        \<longrightarrow> get_params ext params candidate fingerprint = Inl ZeroDivisionError)"
proof (intro conjI allI impI)
  show "get_params ext params candidate fingerprint \<noteq> Inl UnknownVehicle"
    using get_params_errors by blast
next
  fix ret show "vehicle_profile ext candidate ret = ret"
    using assms by (rule vehicle_profile_unmatched)
next
  let ?std = "get_std_params ext candidate fingerprint"
  assume a: "(\<forall>key \<in> set decimal_keys. is_finite (get_decimal params key))
          \<and> is_stored (get_int params ''LateralControlMethod'')
          \<and> is_pid (lateralTuning ?std)
          \<and> is_computed (scale_rot_inertia ext (mass ?std) (wheelbase ?std))
          \<and> (\<forall>f. scale_tire_stiffness ext (mass ?std) (wheelbase ?std)
                (wheelbase ?std * 0.4) f = ZeroDivision)"
  then obtain m where "get_int params ''LateralControlMethod'' = Stored m"
    by (auto simp: is_stored_iff)
  with a obtain t where t: "read_tunables params = Inr t"
    using read_tunables_returns by blast
  show "get_params ext params candidate fingerprint = Inl ZeroDivisionError"
    by (rule get_params_zero_division [OF t])
       (use a in \<open>simp_all add: vehicle_profile_unmatched [OF assms]\<close>)
qed

theorem unknown_vehicle_keeps_std_values_witness:
  "''TOYOTA COROLLA'' \<notin> range (CAR_value sample_externals)
   \<and> vehicle_profile sample_externals ''TOYOTA COROLLA'' sample_std = sample_std
   \<and> is_computed (scale_rot_inertia sample_externals 0 0)
   \<and> scale_tire_stiffness sample_externals 0 0 0 1 = ZeroDivision
   \<and> get_params sample_externals (sample_params 0 False) ''TOYOTA COROLLA'' sample_fingerprint
        = Inl ZeroDivisionError
   \<and> get_params sample_externals (sample_params 0 False) ''TOYOTA COROLLA'' sample_fingerprint
        \<noteq> Inl UnknownVehicle"
proof -
  let ?std = "get_std_params sample_externals ''TOYOTA COROLLA'' sample_fingerprint"
  have n: "''TOYOTA COROLLA'' \<notin> range (CAR_value sample_externals)"
    using sample_not_a_member by (simp add: sample_externals_def)
  have z: "mass ?std = 0" "wheelbase ?std = 0"
    by (simp_all add: sample_externals_def sample_std_def)
  have h: "is_computed (scale_rot_inertia sample_externals 0 0)"
      "\<And>f. scale_tire_stiffness sample_externals 0 0 0 f = ZeroDivision"
    by (simp_all add: sample_externals_def sample_scale_rot_inertia_def
          sample_scale_tire_stiffness_def is_computed_def)
  have s: "(\<forall>key \<in> set decimal_keys. is_finite (get_decimal (sample_params 0 False) key))
          \<and> is_stored (get_int (sample_params 0 False) ''LateralControlMethod'')
          \<and> is_pid (lateralTuning ?std)
          \<and> is_computed (scale_rot_inertia sample_externals (mass ?std) (wheelbase ?std))
          \<and> (\<forall>f. scale_tire_stiffness sample_externals (mass ?std) (wheelbase ?std)
                (wheelbase ?std * 0.4) f = ZeroDivision)"
    unfolding z using h
    by (simp add: sample_params_def is_finite_def is_stored_def is_pid_def
          sample_externals_def sample_std_def)
  note th = unknown_vehicle_keeps_std_values [OF n, of "sample_params 0 False" sample_fingerprint]
  from th s have e: "get_params sample_externals (sample_params 0 False) ''TOYOTA COROLLA''
                       sample_fingerprint = Inl ZeroDivisionError"
    by blast
  from th have v: "vehicle_profile sample_externals ''TOYOTA COROLLA'' sample_std = sample_std"
    by blast
  from n v h e show ?thesis by simp
qed

text \<open>
  The method value 3 on the sample inputs, for a candidate of the chain: get_params
  returns a record, so it does not fail with \<open>UnsupportedControlMethod\<close>.
\<close>

theorem unsupported_method_counterexample:
  "(3 :: int) \<notin> {0, 1, 2}
   \<and> get_int (sample_params 3 False) ''LateralControlMethod'' = Stored 3
   \<and> \<not> isl (get_params sample_externals (sample_params 3 False) ''GENESIS'' sample_fingerprint)
   \<and> get_params sample_externals (sample_params 3 False) ''GENESIS'' sample_fingerprint
        \<noteq> Inl UnsupportedControlMethod"
proof -
  obtain r where r: "get_params sample_externals (sample_params 3 False) ''GENESIS''
                       sample_fingerprint = Inr r"
    using sample_get_params_returns [OF sample_fingerprint_buses] by blast
  then show ?thesis
    by (simp add: sample_params_def)
qed

text \<open>
  Claim C4, as the code has it. For a stored method value outside 0, 1 and 2, get_params
  never fails with \<open>UnsupportedControlMethod\<close>; a record it returns has the lateral tuning
  of the record of get_std_params, since no branch of lines 55 to 103 is taken; and it
  does return a record when every decimal key holds a finite decimal, the fingerprint
  has buses 0 and 2, and the two scaling helpers return on the mass and wheelbase that
  lines 108 to 195 leave for the candidate (\<^verbatim>\<open>scale_tire_stiffness\<close> for every stiffness
  factor).
\<close>

theorem other_method_keeps_std_tuning:
  assumes "get_int params ''LateralControlMethod'' = Stored m" and "m \<notin> {0, 1, 2}"
  shows "get_params ext params candidate fingerprint \<noteq> Inl UnsupportedControlMethod
     \<and> (\<forall>r. get_params ext params candidate fingerprint = Inr r \<longrightarrow>
            lateralTuning r = lateralTuning (get_std_params ext candidate fingerprint))
     \<and> ((\<forall>key \<in> set decimal_keys. is_finite (get_decimal params key))
          \<and> fingerprint 0 \<noteq> None \<and> fingerprint 2 \<noteq> None
          \<and> is_computed (scale_rot_inertia ext
               (mass (vehicle_profile ext candidate (get_std_params ext candidate fingerprint)))
               (wheelbase (vehicle_profile ext candidate
                             (get_std_params ext candidate fingerprint))))
          \<and> (\<forall>f. is_computed (scale_tire_stiffness ext
               (mass (vehicle_profile ext candidate (get_std_params ext candidate fingerprint)))
               (wheelbase (vehicle_profile ext candidate
                             (get_std_params ext candidate fingerprint)))
               (wheelbase (vehicle_profile ext candidate
                             (get_std_params ext candidate fingerprint)) * 0.4) f))
        \<longrightarrow> \<not> isl (get_params ext params candidate fingerprint))"
proof (intro conjI allI impI)
  show "get_params ext params candidate fingerprint \<noteq> Inl UnsupportedControlMethod"
    using get_params_errors by blast
next
  fix r assume "get_params ext params candidate fingerprint = Inr r"
  then show "lateralTuning r = lateralTuning (get_std_params ext candidate fingerprint)"
  proof (rule get_params_InrE)
    fix t ret ret' ids0 ids2
    assume t: "read_tunables params = Inr t"
      and l: "lateral_tuning t ((get_std_params ext candidate fingerprint)
        \<lparr>carName := ''hyundai'', safetyModel := hyundai, communityFeature := False,
         steerActuatorDelay := SteerActuatorDelayAdj t,
         steerRateCost := SteerRateCostAdj t,
         steerLimitTimer := SteerLimitTimerAdj t,
         steerRatio := SteerRatioAdj t\<rparr>) = Inr ret"
      and d: "dynamics ext t (vehicle_profile ext candidate
        (ret\<lparr>steerMaxV := [SteerMaxV t], steerMaxBP := [0]\<rparr>)) = Inr ret'"
      and r: "r = final_overrides (bus_topology params ids0 ids2 ret')"
    have "lat_control_method t = m"
      using read_tunables_method [OF t] assms(1) by simp
    then have "lat_control_method t \<notin> {0, 1, 2}"
      using assms(2) by simp
    then have "lateralTuning ret = lateralTuning (get_std_params ext candidate fingerprint)"
      using l by (auto simp: lateral_tuning_other)
    then show ?thesis
      using dynamics_frame [OF d]
      by (simp add: r lateralTuning_final lateralTuning_topology lateralTuning_profile)
  qed
next
  let ?p = "vehicle_profile ext candidate (get_std_params ext candidate fingerprint)"
  assume a: "(\<forall>key \<in> set decimal_keys. is_finite (get_decimal params key))
          \<and> fingerprint 0 \<noteq> None \<and> fingerprint 2 \<noteq> None
          \<and> is_computed (scale_rot_inertia ext (mass ?p) (wheelbase ?p))
          \<and> (\<forall>f. is_computed (scale_tire_stiffness ext (mass ?p) (wheelbase ?p)
                                 (wheelbase ?p * 0.4) f))"
  with assms(1) obtain t where t: "read_tunables params = Inr t" "lat_control_method t = m"
    using read_tunables_returns by blast
  from a obtain ids0 ids2 where "fingerprint 0 = Some ids0" "fingerprint 2 = Some ids2"
    by auto
  with t assms(2) a have "\<exists>r. get_params ext params candidate fingerprint = Inr r"
    by (intro get_params_returns) auto
  then show "\<not> isl (get_params ext params candidate fingerprint)"
    by auto
qed

theorem other_method_keeps_std_tuning_witness:
  "get_int (sample_params 3 False) ''LateralControlMethod'' = Stored 3
   \<and> (3 :: int) \<notin> {0, 1, 2}
   \<and> \<not> isl (get_params sample_externals (sample_params 3 False) ''GENESIS'' sample_fingerprint)
   \<and> lateralTuning (projr (get_params sample_externals (sample_params 3 False) ''GENESIS''
                             sample_fingerprint)) = lateralTuning sample_std"
proof -
  let ?p = "vehicle_profile sample_externals ''GENESIS''
              (get_std_params sample_externals ''GENESIS'' sample_fingerprint)"
  have g: "get_int (sample_params 3 False) ''LateralControlMethod'' = Stored 3"
    by (simp add: sample_params_def)
  have n: "(3 :: int) \<notin> {0, 1, 2}" by simp
  have s: "(\<forall>key \<in> set decimal_keys. is_finite (get_decimal (sample_params 3 False) key))
          \<and> sample_fingerprint 0 \<noteq> None \<and> sample_fingerprint 2 \<noteq> None
          \<and> is_computed (scale_rot_inertia sample_externals (mass ?p) (wheelbase ?p))
          \<and> (\<forall>f. is_computed (scale_tire_stiffness sample_externals (mass ?p) (wheelbase ?p)
                                 (wheelbase ?p * 0.4) f))"
    by (simp add: sample_params_def is_finite_def sample_fingerprint_def
          sample_genesis_profile sample_helpers_return)
  note th = other_method_keeps_std_tuning [OF g n, of sample_externals "''GENESIS''" sample_fingerprint]
  from th s have r: "\<not> isl (get_params sample_externals (sample_params 3 False)
                             ''GENESIS'' sample_fingerprint)"
    by blast
  then obtain r where e: "get_params sample_externals (sample_params 3 False)
                             ''GENESIS'' sample_fingerprint = Inr r"
    by (cases "get_params sample_externals (sample_params 3 False)
                             ''GENESIS'' sample_fingerprint") auto
  from th e have "lateralTuning r
      = lateralTuning (get_std_params sample_externals ''GENESIS'' sample_fingerprint)"
    by blast
  then have "lateralTuning r = lateralTuning sample_std"
    by (simp add: sample_externals_def)
  with g n r e show ?thesis by simp
qed

text \<open>
  Claim C5. When the flag \<^verbatim>\<open>MdpsHarness\<close> of the store is true, a record returned by
  get_params has \<open>mdpsBus = 1\<close> and \<open>minSteerSpeed = 0\<close>, for every candidate and fingerprint.
\<close>

theorem mdps_harness_bus_and_speed:
  assumes "get_bool params ''MdpsHarness''"
      and "get_params ext params candidate fingerprint = Inr r"
  shows "mdpsBus r = 1 \<and> minSteerSpeed r = 0"
  using assms(2)
  by (rule get_params_InrE)
     (simp add: assms(1) mdpsBus_final minSteerSpeed_final mdpsBus_topology)

theorem mdps_harness_bus_and_speed_witness:
  "get_bool (sample_params 0 True) ''MdpsHarness''
   \<and> \<not> isl (get_params sample_externals (sample_params 0 True) ''GENESIS'' sample_fingerprint)
   \<and> mdpsBus (projr (get_params sample_externals (sample_params 0 True) ''GENESIS''
                       sample_fingerprint)) = 1
   \<and> minSteerSpeed (projr (get_params sample_externals (sample_params 0 True) ''GENESIS''
                       sample_fingerprint)) = 0"
proof -
  have h: "get_bool (sample_params 0 True) ''MdpsHarness''"
    by (simp add: sample_params_def)
  obtain r where r: "get_params sample_externals (sample_params 0 True) ''GENESIS''
                       sample_fingerprint = Inr r"
    using sample_get_params_returns [OF sample_fingerprint_buses] by blast
  show ?thesis
    using mdps_harness_bus_and_speed [OF h r] h r by simp
qed

text \<open>
  Claim C6. In a record returned by get_params, \<open>fcaBus\<close> is 2 when id 909 is among the
  ids of bus 2 and not among those of bus 0, and -1 in every other case; it is never 0.
\<close>

theorem fcaBus_only_on_bus_2:
  assumes "get_params ext params candidate fingerprint = Inr r"
      and "fingerprint 0 = Some ids0" and "fingerprint 2 = Some ids2"
  shows "fcaBus r = (if py_in 909 ids2 \<and> \<not> py_in 909 ids0 then 2 else - 1) \<and> fcaBus r \<noteq> 0"
  using assms(1)
  by (rule get_params_InrE) (use assms(2,3) in \<open>simp add: fcaBus_final fcaBus_topology\<close>)

theorem fcaBus_only_on_bus_2_witness:
  "\<not> isl (get_params sample_externals (sample_params 0 False) ''GENESIS'' sample_fingerprint)
   \<and> sample_fingerprint 0 = Some sample_ids0 \<and> sample_fingerprint 2 = Some sample_ids2
   \<and> py_in 909 sample_ids2 \<and> \<not> py_in 909 sample_ids0
   \<and> fcaBus (projr (get_params sample_externals (sample_params 0 False) ''GENESIS''
                      sample_fingerprint)) = 2"
proof -
  obtain r where r: "get_params sample_externals (sample_params 0 False) ''GENESIS''
                       sample_fingerprint = Inr r"
    using sample_get_params_returns [OF sample_fingerprint_buses] by blast
  have i: "py_in 909 sample_ids2 \<and> \<not> py_in 909 sample_ids0"
    by (simp add: py_in_def sample_ids0_def sample_ids2_def)
  show ?thesis
    using fcaBus_only_on_bus_2 [OF r sample_fingerprint_buses] r i sample_fingerprint_buses
    by simp
qed

text \<open>
  Claim C10. In a record returned by get_params, \<open>emsAvailable\<close> is true exactly when id 809
  is among the ids of bus 0; putting id 608 on bus 0 or taking it away changes nothing.
\<close>

theorem emsAvailable_only_809:
  assumes "get_params ext params candidate fingerprint = Inr r"
      and "fingerprint 0 = Some ids0"
  shows "emsAvailable r = py_in 809 ids0
     \<and> (\<forall>v r'. get_params ext params candidate (fingerprint(0 \<mapsto> ids0(608 := v))) = Inr r'
           \<longrightarrow> emsAvailable r' = emsAvailable r)"
proof (intro conjI allI impI)
  show 1: "emsAvailable r = py_in 809 ids0"
    using assms(1)
    by (rule get_params_InrE) (use assms(2) in \<open>simp add: emsAvailable_final emsAvailable_topology\<close>)
  fix v r'
  assume "get_params ext params candidate (fingerprint(0 \<mapsto> ids0(608 := v))) = Inr r'"
  then have "emsAvailable r' = py_in 809 (ids0(608 := v))"
    by (rule get_params_InrE) (simp add: emsAvailable_final emsAvailable_topology)
  then show "emsAvailable r' = emsAvailable r"
    using 1 by (simp add: py_in_def)
qed

theorem emsAvailable_only_809_witness:
  "\<not> isl (get_params sample_externals (sample_params 0 False) ''GENESIS'' sample_fingerprint)
   \<and> sample_fingerprint 0 = Some sample_ids0
   \<and> \<not> py_in 608 sample_ids0
   \<and> emsAvailable (projr (get_params sample_externals (sample_params 0 False) ''GENESIS''
                      sample_fingerprint))
   \<and> \<not> isl (get_params sample_externals (sample_params 0 False) ''GENESIS''
               (sample_fingerprint(0 \<mapsto> sample_ids0(608 := Some 8))))
   \<and> emsAvailable (projr (get_params sample_externals (sample_params 0 False) ''GENESIS''
                      (sample_fingerprint(0 \<mapsto> sample_ids0(608 := Some 8)))))"
proof -
  obtain r where r: "get_params sample_externals (sample_params 0 False) ''GENESIS''
                       sample_fingerprint = Inr r"
    using sample_get_params_returns [OF sample_fingerprint_buses] by blast
  have "(sample_fingerprint(0 \<mapsto> sample_ids0(608 := Some 8))) 0 = Some (sample_ids0(608 := Some 8))"
       "(sample_fingerprint(0 \<mapsto> sample_ids0(608 := Some 8))) 2 = Some sample_ids2"
    by (simp_all add: sample_fingerprint_def)
  then obtain r' where r': "get_params sample_externals (sample_params 0 False) ''GENESIS''
                       (sample_fingerprint(0 \<mapsto> sample_ids0(608 := Some 8))) = Inr r'"
    using sample_get_params_returns by blast
  have i: "py_in 809 sample_ids0 \<and> \<not> py_in 608 sample_ids0"
    by (simp add: py_in_def sample_ids0_def)
  note th = emsAvailable_only_809 [OF r sample_fingerprint_buses(1)]
  from th i have "emsAvailable r" by simp
  moreover from th r' have "emsAvailable r' = emsAvailable r" by blast
  ultimately show ?thesis
    using r r' i sample_fingerprint_buses by simp
qed

section \<open>Properties of update\<close>

lemma handle_button_press_step:
  "\<exists>added. \<forall>events. handle_button_press ret cc (b # bs) events
                      = handle_button_press ret cc bs (events @ added)
     \<and> set added \<subseteq> {buttonEnable, pcmEnable, buttonCancel, pcmDisable}
     \<and> (type b = cancel \<and> pressed b \<longrightarrow> buttonCancel \<in> set added \<and> pcmDisable \<in> set added)"
  by (rule exI [of _ "(if type b = decelCruise \<and> pressed b \<and> (\<not> brakePressed ret \<or> standstill ret)
           then [buttonEnable, pcmEnable] else [])
        @ (if type b = accelCruise \<and> pressed b
              \<and> (setspeed cc > clu11_speed cc - 2 \<or> standstill ret \<or> usestockscc cc)
           then [buttonEnable, pcmEnable] else [])
        @ (if type b = cancel \<and> pressed b
           then [buttonCancel, pcmDisable] else [])"]) auto

lemma handle_button_press_append:
  "handle_button_press ret cc bs events = events @ handle_button_press ret cc bs []"
proof (induction bs arbitrary: events)
  case Nil
  show ?case by simp
next
  case (Cons b bs)
  obtain added where a: "\<And>ev. handle_button_press ret cc (b # bs) ev
                      = handle_button_press ret cc bs (ev @ added)"
    using handle_button_press_step [of ret cc b bs] by blast
  have "handle_button_press ret cc (b # bs) events = (events @ added) @ handle_button_press ret cc bs []"
    using a Cons.IH [of "events @ added"] by simp
  moreover have "handle_button_press ret cc (b # bs) [] = added @ handle_button_press ret cc bs []"
    using a [of "[]"] Cons.IH [of added] by simp
  ultimately show ?case by simp
qed

lemma handle_button_press_names:
  "set (handle_button_press ret cc bs []) \<subseteq> {buttonEnable, pcmEnable, buttonCancel, pcmDisable}"
proof (induction bs)
  case Nil
  show ?case by simp
next
  case (Cons b bs)
  obtain added where a: "\<And>ev. handle_button_press ret cc (b # bs) ev
                      = handle_button_press ret cc bs (ev @ added)"
    and s: "set added \<subseteq> {buttonEnable, pcmEnable, buttonCancel, pcmDisable}"
    using handle_button_press_step [of ret cc b bs] by blast
  have "handle_button_press ret cc (b # bs) [] = added @ handle_button_press ret cc bs []"
    using a [of "[]"] handle_button_press_append [of ret cc bs added] by simp
  then show ?case
    using s Cons.IH by auto
qed

lemma handle_button_press_no_mode_change:
  "filter is_mode_change (handle_button_press ret cc bs []) = []"
  using handle_button_press_names [of ret cc bs]
  by (auto simp: filter_empty_conv is_mode_change_def)

lemma handle_button_press_cancel:
  assumes "b \<in> set bs" and "type b = cancel" and "pressed b"
  shows "buttonCancel \<in> set (handle_button_press ret cc bs events)
       \<and> pcmDisable \<in> set (handle_button_press ret cc bs events)"
  using assms(1)
proof (induction bs arbitrary: events)
  case Nil
  then show ?case by simp
next
  case (Cons x bs)
  obtain added where a: "\<And>ev. handle_button_press ret cc (x # bs) ev
                      = handle_button_press ret cc bs (ev @ added)"
    and s: "type x = cancel \<and> pressed x \<longrightarrow> buttonCancel \<in> set added \<and> pcmDisable \<in> set added"
    using handle_button_press_step [of ret cc x bs] by blast
  show ?case
  proof (cases "b = x")
    case True
    then have "buttonCancel \<in> set added \<and> pcmDisable \<in> set added"
      using s assms(2,3) by simp
    moreover have "handle_button_press ret cc (x # bs) events
                     = (events @ added) @ handle_button_press ret cc bs []"
      using a handle_button_press_append [of ret cc bs "events @ added"] by simp
    ultimately show ?thesis by simp
  next
    case False
    then have "b \<in> set bs" using Cons.prems by simp
    then show ?thesis
      using Cons.IH [of "events @ added"] a by simp
  qed
qed


lemma update_with_controller:
  assumes "CC c = Some cc"
  shows "update ext self c =
     (let self' = interface_before_loop ext self cc c;
          ret = message_before_loop self' cc c;
          events = (if \<not> enableCruise (CP self')
                    then handle_button_press ret cc (buttonEvents self') (events_before_loop self cc c)
                    else events_before_loop self cc c);
          ret = ret\<lparr>msg_events := events\<rparr>
      in (self'\<lparr>CS_out := ret\<rparr>, Inr ret))"
  unfolding update_def interface_before_loop_def message_before_loop_def
    events_before_loop_def Let_def assms option.case
  by (cases self) (simp del: handle_button_press.simps)

lemma update_raises_without_controller:
  "CC c = None \<Longrightarrow> snd (update ext self c) = Inl AttributeError"
  by (simp add: update_def Let_def)

lemma update_returns_iff:
  "\<not> isl (snd (update ext self c)) \<longleftrightarrow> CC c \<noteq> None"
proof (cases "CC c")
  case None
  then show ?thesis by (simp add: update_raises_without_controller)
next
  case (Some cc)
  then show ?thesis by (simp add: update_with_controller Let_def)
qed

lemma update_returnsE:
  assumes "snd (update ext self c) = Inr out"
  obtains cc where "CC c = Some cc"
  using assms update_raises_without_controller [of c ext self] by (cases "CC c") auto

lemma update_low_speed_alert:
  "low_speed_alert (fst (update ext self c)) =
     (low_speed_alert self
      \<and> \<not> (vEgo (CS_update c) > minSteerSpeed (CP self) + 0.84
            \<or> (\<exists>cc. CC c = Some cc \<and> \<not> enabled cc)))"
proof (cases "CC c")
  case None
  then show ?thesis by (simp add: update_def Let_def)
next
  case (Some cc)
  then show ?thesis
    by (simp add: update_with_controller Let_def interface_before_loop_def)
qed

lemma update_sccBus: "sccBus (CP (fst (update ext self c))) = sccBus (CP self)"
proof (cases "CC c")
  case None
  then show ?thesis by (simp add: update_def Let_def)
next
  case (Some cc)
  then show ?thesis
    by (simp add: update_with_controller Let_def interface_before_loop_def)
qed

lemma update_enableCruise:
  "sccBus (CP self) \<noteq> 2 \<Longrightarrow> enableCruise (CP (fst (update ext self c))) = enableCruise (CP self)"
proof (cases "CC c")
  case None
  then show ?thesis by (simp add: update_def Let_def)
next
  case (Some cc)
  assume "sccBus (CP self) \<noteq> 2"
  with Some show ?thesis
    by (simp add: update_with_controller Let_def interface_before_loop_def)
qed

lemma update_msg_buttonEvents:
  assumes "snd (update ext self c) = Inr out"
  shows "msg_buttonEvents out = buttonEvents (fst (update ext self c))"
proof -
  obtain cc where "CC c = Some cc" using assms by (rule update_returnsE)
  then show ?thesis
    using assms by (auto simp: update_with_controller Let_def message_before_loop_def)
qed

lemma update_msg_events:
  assumes "snd (update ext self c) = Inr out" and "CC c = Some cc"
  shows "\<exists>ret. msg_events out =
           (if \<not> enableCruise (CP (fst (update ext self c)))
            then events_before_loop self cc c
                 @ handle_button_press ret cc (buttonEvents (fst (update ext self c))) []
            else events_before_loop self cc c)"
proof -
  let ?self' = "interface_before_loop ext self cc c"
  let ?ret = "message_before_loop ?self' cc c"
  have "msg_events out =
           (if \<not> enableCruise (CP ?self')
            then handle_button_press ?ret cc (buttonEvents ?self') (events_before_loop self cc c)
            else events_before_loop self cc c)"
    using assms by (auto simp: update_with_controller Let_def)
  moreover have "fst (update ext self c) = ?self'\<lparr>CS_out := ?ret
      \<lparr>msg_events := (if \<not> enableCruise (CP ?self')
            then handle_button_press ?ret cc (buttonEvents ?self') (events_before_loop self cc c)
            else events_before_loop self cc c)\<rparr>\<rparr>"
    using assms(2) by (simp add: update_with_controller Let_def)
  ultimately show ?thesis
    using handle_button_press_append [of ?ret cc "buttonEvents ?self'" "events_before_loop self cc c"]
    by auto
qed

lemma update_cancel:
  assumes "snd (update ext self c) = Inr out"
      and "\<not> enableCruise (CP (fst (update ext self c)))"
      and "b \<in> set (buttonEvents (fst (update ext self c)))" "type b = cancel" "pressed b"
  shows "buttonCancel \<in> set (msg_events out) \<and> pcmDisable \<in> set (msg_events out)"
proof -
  obtain cc where cc: "CC c = Some cc" using assms(1) by (rule update_returnsE)
  obtain ret where "msg_events out = events_before_loop self cc c
                 @ handle_button_press ret cc (buttonEvents (fst (update ext self c))) []"
    using update_msg_events [OF assms(1) cc] assms(2) by auto
  then show ?thesis
    using handle_button_press_cancel [OF assms(3,4,5), of ret cc "[]"] by simp
qed

lemma mode_change_before_loop:
  "\<exists>added. events_before_loop self cc c = create_common_events c @ added
      \<and> length (filter is_mode_change added) \<le> 1
      \<and> (mode_change_timer cc \<noteq> 0 \<and> cruiseState_modeSel (CS_out self) = 2
           \<longrightarrow> filter is_mode_change added = [modeChangeDistance])"
  unfolding events_before_loop_def
  by (rule exI, rule conjI, rule refl) (simp add: is_mode_change_def)

lemma updates_low_speed_alert:
  "\<not> low_speed_alert self \<Longrightarrow> \<not> low_speed_alert (updates ext self cs)"
  by (induction cs arbitrary: self) (simp_all add: update_low_speed_alert)

lemma updates_sccBus: "sccBus (CP (updates ext self cs)) = sccBus (CP self)"
  by (induction cs arbitrary: self) (simp_all add: update_sccBus)

lemma updates_enableCruise:
  "sccBus (CP self) \<noteq> 2 \<Longrightarrow> enableCruise (CP (updates ext self cs)) = enableCruise (CP self)"
  by (induction cs arbitrary: self) (simp_all add: update_sccBus update_enableCruise)

subsection \<open>The claims about update\<close>

lemma sample_cycle_CC: "CC (sample_cycle v but prev) = Some sample_CarController"
  by (simp add: sample_cycle_def)

lemma sample_cancel_edge:
  "buttonEvents (fst (update sample_externals (sample_interface cp) (sample_cycle v 4 0)))
     = [\<lparr>type = cancel, pressed = True\<rparr>]"
  by (subst update_with_controller [OF sample_cycle_CC])
     (simp add: Let_def interface_before_loop_def sample_cycle_def sample_externals_def
        button_type_def)

text \<open>
  Claim C1. Take a call of update after which the stored list of button events, the one
  the loop of line 344 goes through, holds an event of type cancel with pressed true,
  and \<open>enableCruise\<close>, as line 343 reads it, is false. If the call returns, the events of
  the returned message include \<open>buttonCancel\<close> and \<open>pcmDisable\<close>, whatever the speed, the
  brake and the standstill signals are; and the call returns when the controller object
  is present.
\<close>

theorem cancel_pressed_emits_disable:
  assumes "\<exists>b \<in> set (buttonEvents (fst (update ext self c))). type b = cancel \<and> pressed b"
      and "\<not> enableCruise (CP (fst (update ext self c)))"
  shows "(\<forall>out. snd (update ext self c) = Inr out \<longrightarrow>
            buttonCancel \<in> set (msg_events out) \<and> pcmDisable \<in> set (msg_events out))
       \<and> (CC c \<noteq> None \<longrightarrow> \<not> isl (snd (update ext self c)))"
proof (intro conjI allI impI)
  fix out assume o: "snd (update ext self c) = Inr out"
  obtain b where b: "b \<in> set (buttonEvents (fst (update ext self c)))" "type b = cancel" "pressed b"
    using assms(1) by blast
  show "buttonCancel \<in> set (msg_events out)" "pcmDisable \<in> set (msg_events out)"
    using update_cancel [OF o assms(2) b] by simp_all
next
  assume "CC c \<noteq> None"
  then show "\<not> isl (snd (update ext self c))"
    by (simp add: update_returns_iff)
qed

theorem cancel_pressed_emits_disable_witness:
  "buttonEvents (fst (update sample_externals (sample_interface sample_CP) (sample_cycle 0 4 0)))
     = [\<lparr>type = cancel, pressed = True\<rparr>]
   \<and> \<not> enableCruise (CP (fst (update sample_externals (sample_interface sample_CP)
                                  (sample_cycle 0 4 0))))
   \<and> CC (sample_cycle 0 4 0) \<noteq> None
   \<and> \<not> isl (snd (update sample_externals (sample_interface sample_CP) (sample_cycle 0 4 0)))
   \<and> buttonCancel \<in> set (msg_events (projr (snd (update sample_externals
                          (sample_interface sample_CP) (sample_cycle 0 4 0)))))
   \<and> pcmDisable \<in> set (msg_events (projr (snd (update sample_externals
                          (sample_interface sample_CP) (sample_cycle 0 4 0)))))"
proof -
  let ?u = "update sample_externals (sample_interface sample_CP) (sample_cycle 0 4 0)"
  have b: "buttonEvents (fst ?u) = [\<lparr>type = cancel, pressed = True\<rparr>]"
    by (rule sample_cancel_edge)
  have "sccBus (CP (sample_interface sample_CP)) \<noteq> 2"
    by (simp add: sample_interface_def sample_CP_def)
  then have e: "\<not> enableCruise (CP (fst ?u))"
    by (simp add: update_enableCruise sample_interface_def sample_CP_def)
  have h: "\<exists>b \<in> set (buttonEvents (fst ?u)). type b = cancel \<and> pressed b"
    using b by simp
  have cc: "CC (sample_cycle 0 4 0) \<noteq> None"
    by (simp add: sample_cycle_CC)
  note th = cancel_pressed_emits_disable [OF h e]
  from th cc have r: "\<not> isl (snd ?u)" by blast
  then obtain out where o: "snd ?u = Inr out" by (cases "snd ?u") auto
  with th have "buttonCancel \<in> set (msg_events out) \<and> pcmDisable \<in> set (msg_events out)"
    by blast
  with b e cc r o show ?thesis by simp
qed

text \<open>
  Claim C7. In a call of update that returns, the events of the message are those of
  create_common_events followed by the events the call added; at most one of the added
  events is a mode-change event, and when the mode-change timer is not zero and the mode
  selector of \<^verbatim>\<open>self.CS.out\<close> is 2, the only mode-change event added is
  \<open>modeChangeDistance\<close>.
\<close>

theorem at_most_one_mode_change:
  assumes "snd (update ext self c) = Inr out"
  shows "\<exists>cc added. CC c = Some cc
           \<and> msg_events out = create_common_events c @ added
           \<and> length (filter is_mode_change added) \<le> 1
           \<and> (mode_change_timer cc \<noteq> 0 \<and> cruiseState_modeSel (CS_out self) = 2
                \<longrightarrow> filter is_mode_change added = [modeChangeDistance])"
proof -
  obtain cc where cc: "CC c = Some cc" using assms by (rule update_returnsE)
  obtain added where a: "events_before_loop self cc c = create_common_events c @ added"
      "length (filter is_mode_change added) \<le> 1"
      "mode_change_timer cc \<noteq> 0 \<and> cruiseState_modeSel (CS_out self) = 2
           \<longrightarrow> filter is_mode_change added = [modeChangeDistance]"
    using mode_change_before_loop [of self cc c] by blast
  obtain ret where "msg_events out =
           (if \<not> enableCruise (CP (fst (update ext self c)))
            then events_before_loop self cc c
                 @ handle_button_press ret cc (buttonEvents (fst (update ext self c))) []
            else events_before_loop self cc c)"
    using update_msg_events [OF assms cc] by blast
  then have "msg_events out = create_common_events c @ added
             \<or> msg_events out = create_common_events c @ (added
                 @ handle_button_press ret cc (buttonEvents (fst (update ext self c))) [])"
    using a(1) by (simp split: if_splits)
  then show ?thesis
  proof
    assume "msg_events out = create_common_events c @ added"
    then show ?thesis using cc a(2,3) by blast
  next
    let ?h = "handle_button_press ret cc (buttonEvents (fst (update ext self c))) []"
    assume m: "msg_events out = create_common_events c @ (added @ ?h)"
    have "filter is_mode_change (added @ ?h) = filter is_mode_change added"
      by (simp add: handle_button_press_no_mode_change)
    then show ?thesis using cc a(2,3) m by metis
  qed
qed

theorem at_most_one_mode_change_witness:
  "\<not> isl (snd (update sample_externals (sample_interface sample_CP) (sample_cycle 0 0 0)))
   \<and> CC (sample_cycle 0 0 0) = Some sample_CarController
   \<and> mode_change_timer sample_CarController \<noteq> 0
   \<and> cruiseState_modeSel (CS_out (sample_interface sample_CP)) = 2
   \<and> filter is_mode_change
       (drop (length (create_common_events (sample_cycle 0 0 0)))
          (msg_events (projr (snd (update sample_externals (sample_interface sample_CP)
                                     (sample_cycle 0 0 0))))))
       = [modeChangeDistance]"
proof -
  let ?u = "update sample_externals (sample_interface sample_CP) (sample_cycle 0 0 0)"
  have r: "\<not> isl (snd ?u)"
    by (simp add: update_returns_iff sample_cycle_CC)
  then obtain out where o: "snd ?u = Inr out" by (cases "snd ?u") auto
  have s: "mode_change_timer sample_CarController \<noteq> 0"
      "cruiseState_modeSel (CS_out (sample_interface sample_CP)) = 2"
    by (simp_all add: sample_CarController_def sample_interface_def sample_CarState_def)
  obtain cc added where a: "CC (sample_cycle 0 0 0) = Some cc"
      "msg_events out = create_common_events (sample_cycle 0 0 0) @ added"
      "mode_change_timer cc \<noteq> 0 \<and> cruiseState_modeSel (CS_out (sample_interface sample_CP)) = 2
                \<longrightarrow> filter is_mode_change added = [modeChangeDistance]"
    using at_most_one_mode_change [OF o] by blast
  have "cc = sample_CarController"
    using a(1) by (simp add: sample_cycle_CC)
  then have "filter is_mode_change added = [modeChangeDistance]"
    using a(3) s by simp
  then show ?thesis
    using r o s a(2) sample_cycle_CC by simp
qed

text \<open>
  Claim C8. A call of update where the speed is above \<open>minSteerSpeed + 0.84\<close>, or where the
  controller is present and disabled, leaves \<open>low_speed_alert\<close> false, and it is false after
  every sequence of later calls. No call sets it: if it is true after a sequence of calls
  it was true before.
\<close>

theorem low_speed_alert_one_way:
  assumes "vEgo (CS_update c) > minSteerSpeed (CP self) + 0.84
           \<or> (\<exists>cc. CC c = Some cc \<and> \<not> enabled cc)"
  shows "\<not> low_speed_alert (fst (update ext self c))
       \<and> (\<forall>cs. \<not> low_speed_alert (updates ext (fst (update ext self c)) cs))
       \<and> (\<forall>s cs. low_speed_alert (updates ext s cs) \<longrightarrow> low_speed_alert s)"
proof -
  have 1: "\<not> low_speed_alert (fst (update ext self c))"
    using assms by (simp add: update_low_speed_alert)
  then have 2: "\<forall>cs. \<not> low_speed_alert (updates ext (fst (update ext self c)) cs)"
    by (simp add: updates_low_speed_alert)
  have 3: "\<forall>s cs. low_speed_alert (updates ext s cs) \<longrightarrow> low_speed_alert s"
    using updates_low_speed_alert by blast
  from 1 2 3 show ?thesis by simp
qed

theorem low_speed_alert_one_way_witness:
  "low_speed_alert (sample_interface sample_CP)
   \<and> vEgo (CS_update (sample_cycle 1 0 0)) > minSteerSpeed (CP (sample_interface sample_CP)) + 0.84
   \<and> \<not> low_speed_alert (fst (update sample_externals (sample_interface sample_CP)
                                (sample_cycle 1 0 0)))
   \<and> \<not> low_speed_alert (updates sample_externals
          (fst (update sample_externals (sample_interface sample_CP) (sample_cycle 1 0 0)))
          [sample_cycle 0 0 0])
   \<and> low_speed_alert (updates sample_externals (sample_interface sample_CP) [sample_cycle 0 0 0])"
proof -
  have l: "low_speed_alert (sample_interface sample_CP)"
    by (simp add: sample_interface_def)
  have v: "vEgo (CS_update (sample_cycle 1 0 0))
             > minSteerSpeed (CP (sample_interface sample_CP)) + 0.84"
    by (simp add: sample_cycle_def sample_CarState_def sample_interface_def sample_CP_def)
  have k: "low_speed_alert (updates sample_externals (sample_interface sample_CP)
                              [sample_cycle 0 0 0])"
    by (simp add: update_low_speed_alert sample_cycle_def sample_CarState_def
          sample_interface_def sample_CP_def sample_CarController_def)
  have h: "vEgo (CS_update (sample_cycle 1 0 0))
             > minSteerSpeed (CP (sample_interface sample_CP)) + 0.84
           \<or> (\<exists>cc. CC (sample_cycle 1 0 0) = Some cc \<and> \<not> enabled cc)"
    using v by simp
  note th = low_speed_alert_one_way [OF h, of sample_externals]
  from th have "\<not> low_speed_alert (fst (update sample_externals (sample_interface sample_CP)
                                (sample_cycle 1 0 0)))"
    by blast
  moreover from th have "\<not> low_speed_alert (updates sample_externals
          (fst (update sample_externals (sample_interface sample_CP) (sample_cycle 1 0 0)))
          [sample_cycle 0 0 0])"
    by blast
  moreover from th k have "low_speed_alert (sample_interface sample_CP)"
    by blast
  ultimately show ?thesis using v k by simp
qed

text \<open>
  Claim C9. When the \<open>CP\<close> of the interface is a record returned by get_params, then after
  every sequence of calls of update \<open>enableCruise\<close> is false and \<open>sccBus\<close> is -1, so the test of
  line 285 fails and the test of line 343 succeeds in every call; hence in every call
  that returns, a stored cancel event with pressed true gives \<open>buttonCancel\<close> and
  \<open>pcmDisable\<close>.
\<close>

theorem enableCruise_stays_false:
  assumes "get_params ext params candidate fingerprint = Inr cp" and "CP self = cp"
  shows "\<not> enableCruise (CP (updates ext' self cs))
       \<and> sccBus (CP (updates ext' self cs)) = - 1
       \<and> (\<forall>c out. snd (update ext' (updates ext' self cs) c) = Inr out \<longrightarrow>
            (\<exists>b \<in> set (msg_buttonEvents out). type b = cancel \<and> pressed b) \<longrightarrow>
            buttonCancel \<in> set (msg_events out) \<and> pcmDisable \<in> set (msg_events out))"
proof -
  have s: "sccBus (CP self) = - 1" and e: "\<not> enableCruise (CP self)"
    using assms(1)
    by (rule get_params_InrE, simp add: assms(2) sccBus_final enableCruise_final)+
  have 1: "\<And>cs. sccBus (CP (updates ext' self cs)) = - 1"
    using s by (simp add: updates_sccBus)
  have 2: "\<And>cs. \<not> enableCruise (CP (updates ext' self cs))"
    using s e by (simp add: updates_enableCruise)
  have 3: "buttonCancel \<in> set (msg_events out) \<and> pcmDisable \<in> set (msg_events out)"
    if o: "snd (update ext' (updates ext' self cs) c) = Inr out"
      and b: "\<exists>b \<in> set (msg_buttonEvents out). type b = cancel \<and> pressed b" for c out
  proof -
    have "\<not> enableCruise (CP (fst (update ext' (updates ext' self cs) c)))"
      using 1 [of cs] 2 [of cs] by (simp add: update_enableCruise)
    moreover obtain b where "b \<in> set (buttonEvents (fst (update ext' (updates ext' self cs) c)))"
        "type b = cancel" "pressed b"
      using b update_msg_buttonEvents [OF o] by auto
    ultimately show ?thesis
      using update_cancel [OF o] by blast
  qed
  from 1 2 3 show ?thesis by blast
qed

theorem enableCruise_stays_false_witness:
  "\<not> isl (get_params sample_externals (sample_params 0 False) ''GENESIS'' sample_fingerprint)
   \<and> \<not> enableCruise (CP (updates sample_externals
          (sample_interface (projr (get_params sample_externals (sample_params 0 False)
                                      ''GENESIS'' sample_fingerprint)))
          [sample_cycle 0 4 0, sample_cycle 0 0 4]))
   \<and> sccBus (CP (updates sample_externals
          (sample_interface (projr (get_params sample_externals (sample_params 0 False)
                                      ''GENESIS'' sample_fingerprint)))
          [sample_cycle 0 4 0, sample_cycle 0 0 4])) = - 1
   \<and> msg_buttonEvents (projr (snd (update sample_externals
          (sample_interface (projr (get_params sample_externals (sample_params 0 False)
                                      ''GENESIS'' sample_fingerprint)))
          (sample_cycle 0 4 0)))) = [\<lparr>type = cancel, pressed = True\<rparr>]
   \<and> buttonCancel \<in> set (msg_events (projr (snd (update sample_externals
          (sample_interface (projr (get_params sample_externals (sample_params 0 False)
                                      ''GENESIS'' sample_fingerprint)))
          (sample_cycle 0 4 0)))))"
proof -
  obtain r where r: "get_params sample_externals (sample_params 0 False) ''GENESIS''
                       sample_fingerprint = Inr r"
    using sample_get_params_returns [OF sample_fingerprint_buses] by blast
  have p: "CP (sample_interface r) = r"
    by (simp add: sample_interface_def)
  let ?u = "update sample_externals (sample_interface r) (sample_cycle 0 4 0)"
  have "\<not> isl (snd ?u)"
    by (simp add: update_returns_iff sample_cycle_CC)
  then obtain out where o: "snd ?u = Inr out" by (cases "snd ?u") auto
  have m: "msg_buttonEvents out = [\<lparr>type = cancel, pressed = True\<rparr>]"
    using update_msg_buttonEvents [OF o] sample_cancel_edge by simp
  note th1 = enableCruise_stays_false [OF r p, of sample_externals
                "[sample_cycle 0 4 0, sample_cycle 0 0 4]"]
  note th2 = enableCruise_stays_false [OF r p, of sample_externals "[]"]
  from th2 o m have "buttonCancel \<in> set (msg_events out)"
    by simp
  with th1 r o m show ?thesis by simp
qed

end
